theory Spec2Isabelle
  imports Main "HOL-Library.AList"
begin

section \<open>JavaScript values\<close>

text \<open>
  Values that reach the service as decoded JSON (plus \<open>undefined\<close> for an absent
  argument or property). Numbers are integers here: the handlers read a number only
  through its truthiness or pass it on unchanged.
\<close>

datatype jsval =
    JUndefined
  | JNull
  | JBool bool
  | JNum int
  | JStr string
  | JArr "jsval list"
  | JObj "(string \<times> jsval) list"

type_synonym obj = "(string \<times> jsval) list"

text \<open>The test \<open>if (v)\<close> / \<open>!v\<close> of the language.\<close>

fun truthy :: "jsval \<Rightarrow> bool" where
  "truthy JUndefined = False"
| "truthy JNull = False"
| "truthy (JBool b) = b"
| "truthy (JNum n) = (n \<noteq> 0)"
| "truthy (JStr s) = (s \<noteq> [])"
| "truthy (JArr xs) = True"
| "truthy (JObj ps) = True"

text \<open>Property read \<open>o.k\<close> and property write \<open>o.k = v\<close> on an object kept as a list
  of its own properties in insertion order: a write to an existing key keeps its place,
  a new key goes to the end.\<close>

definition get_prop :: "obj \<Rightarrow> string \<Rightarrow> jsval" where
  "get_prop ob k = (case map_of ob k of None \<Rightarrow> JUndefined | Some v \<Rightarrow> v)"

definition set_prop :: "obj \<Rightarrow> string \<Rightarrow> jsval \<Rightarrow> obj" where
  "set_prop ob k v = AList.update k v ob"

definition has_prop :: "obj \<Rightarrow> string \<Rightarrow> bool" where
  "has_prop ob k = (map_of ob k \<noteq> None)"

text \<open>\<open>String.prototype.includes\<close>: the search string occurs somewhere in the string.\<close>

fun starts_with :: "string \<Rightarrow> string \<Rightarrow> bool" where
  "starts_with s [] = True"
| "starts_with [] (c # cs) = False"
| "starts_with (d # ds) (c # cs) = (d = c \<and> starts_with ds cs)"

fun str_includes :: "string \<Rightarrow> string \<Rightarrow> bool" where
  "str_includes [] sub = (sub = [])"
| "str_includes (d # ds) sub = (starts_with (d # ds) sub \<or> str_includes ds sub)"

text \<open>The decimal numeral of a natural number, which is the string form of a small
  non-negative integer.\<close>

fun decimal :: "nat \<Rightarrow> string" where
  "decimal n =
     (if n < 10 then [''0123456789'' ! n]
      else decimal (n div 10) @ [''0123456789'' ! (n mod 10)])"

declare decimal.simps [simp del]

section \<open>Room keys and handler arguments\<close>

text \<open>
  A room key is a key of the adapter's \<open>Map\<close>. Keys are compared by value for the
  primitive values modelled here: strings (the keys of the data model), booleans and
  \<open>null\<close>, which a client can put into the array it sends with \<open>subscribe\<close>.
  Arrays with numeric, array or object elements are outside the model.
\<close>

datatype room = RStr string | RBool bool | RNull

type_synonym sid = string

text \<open>String conversion of a key, as \<open>topic + ":count"\<close> and a template literal do it.\<close>

fun room_to_string :: "room \<Rightarrow> string" where
  "room_to_string (RStr s) = s"
| "room_to_string (RBool b) = (if b then ''true'' else ''false'')"
| "room_to_string RNull = ''null''"

fun room_val :: "room \<Rightarrow> jsval" where
  "room_val (RStr s) = JStr s"
| "room_val (RBool b) = JBool b"
| "room_val RNull = JNull"

text \<open>The argument of a socket event or a target field of a notification request:
  \<open>undefined\<close>, a primitive, a plain object or an array of room keys, as decoded from
  JSON; and, for a socket event, the two other values the transport hands to a handler:
  a binary payload (a \<open>Buffer\<close>, given by its bytes) and a function (the
  acknowledgement callback, given by its \<open>length\<close> property).\<close>

datatype js_arg =
    ArgUndefined
  | ArgNull
  | ArgBool bool
  | ArgNum int
  | ArgStr string
  | ArgObj obj
  | ArgArr "room list"
  | ArgBuffer "char list"
  | ArgFunction nat

fun is_array :: "js_arg \<Rightarrow> bool" where
  "is_array (ArgArr xs) = True"
| "is_array a = False"

text \<open>The conversion of a value to a string, which a template literal performs, raises
  a \<open>TypeError\<close> for an object whose own property \<open>toString\<close> is not a function; an
  object decoded from JSON holds no function, so it raises for every such object that has
  a property of that name. It succeeds for every other value modelled here.\<close>

fun to_string_raises :: "js_arg \<Rightarrow> bool" where
  "to_string_raises (ArgObj ob) = has_prop ob ''toString''"
| "to_string_raises a = False"

datatype js_error = TypeError

section \<open>Room membership store\<close>

text \<open>
  The handlers of \<open>app.js\<close> and the notification service work on the adapter of the
  transport library: its maps \<open>rooms\<close> and \<open>sids\<close>, \<open>socket.join\<close>, the removal of
  the memberships of a closed connection, and \<open>namespace.in(room).emit\<close>. The library is
  not part of the repository's sources; the definitions of this section stand for it.
\<close>

text \<open>Modelled from the spec: the room membership store of one namespace, which the
  sources reach as \<open>namespace.adapter.rooms\<close> (room key to the set of connection
  identifiers in the room) and \<open>socket.rooms\<close> (the set of rooms of a connection). A set
  keeps insertion order and holds no duplicates.\<close>

record namespace =
  rooms :: "room \<rightharpoonup> sid list"
  sids :: "sid \<rightharpoonup> room list"

definition empty_namespace :: namespace where
  "empty_namespace = \<lparr>rooms = Map.empty, sids = Map.empty\<rparr>"

text \<open>\<open>Set.add\<close>\<close>

definition set_add :: "'a \<Rightarrow> 'a list \<Rightarrow> 'a list" where
  "set_add x xs = (if x \<in> set xs then xs else xs @ [x])"

text \<open>The members of a room, none when there is no such room.\<close>

definition members :: "namespace \<Rightarrow> room \<Rightarrow> sid list" where
  "members ns r = (case rooms ns r of None \<Rightarrow> [] | Some ms \<Rightarrow> ms)"

text \<open>\<open>socket.rooms\<close>\<close>

definition socket_rooms :: "namespace \<Rightarrow> sid \<Rightarrow> room list" where
  "socket_rooms ns s = (case sids ns s of None \<Rightarrow> [] | Some rs \<Rightarrow> rs)"

definition room_size :: "namespace \<Rightarrow> room \<Rightarrow> nat" where
  "room_size ns r = length (members ns r)"

text \<open>Modelled from the spec: \<open>socket.join(room)\<close> of the transport library, which adds
  the room to the connection's set and the connection to the room's set.\<close>

definition socket_join :: "namespace \<Rightarrow> sid \<Rightarrow> room \<Rightarrow> namespace" where
  "socket_join ns s r =
     ns\<lparr>sids := (sids ns)(s \<mapsto> set_add r (socket_rooms ns s)),
        rooms := (rooms ns)(r \<mapsto> set_add s (members ns r))\<rparr>"

text \<open>Modelled from the spec: the removal of one membership by the transport library;
  a room that loses its last member is removed.\<close>

definition del_room :: "namespace \<Rightarrow> sid \<Rightarrow> room \<Rightarrow> namespace" where
  "del_room ns s r =
     (case rooms ns r of
        None \<Rightarrow> ns
      | Some ms \<Rightarrow>
          (let ms' = removeAll s ms
           in if ms' = [] then ns\<lparr>rooms := (rooms ns)(r := None)\<rparr>
              else ns\<lparr>rooms := (rooms ns)(r \<mapsto> ms')\<rparr>))"

text \<open>Modelled from the spec: the removal of all memberships of a connection by the
  transport library, after the \<open>disconnecting\<close> handler has run.\<close>

definition leave_all :: "namespace \<Rightarrow> sid \<Rightarrow> namespace" where
  "leave_all ns s =
     (case sids ns s of
        None \<Rightarrow> ns
      | Some rs \<Rightarrow> (fold (\<lambda>r n. del_room n s r) rs ns)\<lparr>sids := (sids ns)(s := None)\<rparr>)"

text \<open>An emission: the room it is addressed to, the event name, the payload, and the
  connections that are members of the room at that moment, to which the transport sends
  it.\<close>

record emission =
  e_room :: room
  e_event :: string
  e_payload :: obj
  e_to :: "sid list"

text \<open>Modelled from the spec: the \<open>emit\<close> primitive of the transport library,
  \<open>namespace.in(room).emit(event, payload)\<close>, for an event name the library accepts: it
  delivers to the members of the room and is a no-op on a room without members.\<close>

definition ns_emit :: "namespace \<Rightarrow> room \<Rightarrow> string \<Rightarrow> obj \<Rightarrow> emission" where
  "ns_emit ns r ev p = \<lparr>e_room = r, e_event = ev, e_payload = p, e_to = members ns r\<rparr>"

section \<open>Connection handlers of \<open>app.js\<close>\<close>

text \<open>\<open>if (clientId) socket.join(clientId)\<close>, for a header that is absent or a
  string.\<close>

definition join_header :: "namespace \<Rightarrow> sid \<Rightarrow> string option \<Rightarrow> namespace" where
  "join_header ns s h =
     (case h of
        None \<Rightarrow> ns
      | Some v \<Rightarrow> if v \<noteq> [] then socket_join ns s (RStr v) else ns)"

text \<open>The connection handler. Before it runs, the transport library has put the socket
  into the room named by its own identifier; the handler joins the rooms named by the
  \<open>x-client-id\<close> and \<open>x-device-id\<close> headers when they are present and non-empty.\<close>

definition on_connection :: "namespace \<Rightarrow> sid \<Rightarrow> string option \<Rightarrow> string option \<Rightarrow> namespace" where
  "on_connection ns s clientId deviceId =
     join_header (join_header (socket_join ns s (RStr s)) s clientId) s deviceId"

text \<open>The payload of a count update, \<open>{type: "count", topic, count}\<close>, and the key
  of the count room of a topic.\<close>

definition count_payload :: "room \<Rightarrow> nat \<Rightarrow> obj" where
  "count_payload topic n =
     [(''type'', JStr ''count''), (''topic'', room_val topic), (''count'', JNum (int n))]"

definition count_key :: "room \<Rightarrow> room" where
  "count_key topic = RStr (room_to_string topic @ '':count'')"

text \<open>The body of \<open>eventTopics.forEach\<close> in the \<open>subscribe\<close> handler.\<close>

definition subscribe_topic :: "namespace \<Rightarrow> sid \<Rightarrow> room \<Rightarrow> namespace \<times> emission list" where
  "subscribe_topic ns s topic =
     (let ns' = socket_join ns s topic
      in case rooms ns' topic of
           None \<Rightarrow> (ns', [])
         | Some topicRoom \<Rightarrow>
             if length topicRoom > 0 then
               (let topicCountKey = count_key topic
                in case rooms ns' topicCountKey of
                     None \<Rightarrow> (ns', [])
                   | Some topicRoomCount \<Rightarrow>
                       if length topicRoomCount > 0 then
                         (ns', [ns_emit ns' topicCountKey ''dataUpdate''
                                  (count_payload topic (length topicRoom))])
                       else (ns', []))
             else (ns', []))"

fun subscribe_each :: "namespace \<Rightarrow> sid \<Rightarrow> room list \<Rightarrow> namespace \<times> emission list" where
  "subscribe_each ns s [] = (ns, [])"
| "subscribe_each ns s (t # ts) =
     (let (ns1, es1) = subscribe_topic ns s t;
          (ns2, es2) = subscribe_each ns1 s ts
      in (ns2, es1 @ es2))"

text \<open>The \<open>subscribe\<close> handler: the new store, the emissions, whether the warning
  was logged, and the error raised, if any. For an argument that is not an array the
  handler builds the text of the warning, which converts the argument to a string, and
  then logs it.\<close>

definition subscribe_handler ::
  "namespace \<Rightarrow> sid \<Rightarrow> js_arg \<Rightarrow> namespace \<times> emission list \<times> bool \<times> js_error option" where
  "subscribe_handler ns s eventTopics =
     (case eventTopics of
        ArgArr ts \<Rightarrow> (let (ns', es) = subscribe_each ns s ts in (ns', es, False, None))
      | _ \<Rightarrow>
          if to_string_raises eventTopics then (ns, [], False, Some TypeError)
          else (ns, [], True, None))"

text \<open>The loop of the \<open>subscribeCount\<close> handler, over the texts \<open>`${topic}`\<close> of the
  elements visited: the body joins the room \<open>`${topic}:count`\<close>.\<close>

fun subscribeCount_each :: "namespace \<Rightarrow> sid \<Rightarrow> string list \<Rightarrow> namespace" where
  "subscribeCount_each ns s [] = ns"
| "subscribeCount_each ns s (t # ts) =
     subscribeCount_each (socket_join ns s (RStr (t @ '':count''))) s ts"

text \<open>The \<open>subscribeCount\<close> handler: the new store and the error raised, if any. It
  calls \<open>eventTopics.forEach\<close> with no test before it. An array has the method, which
  visits its elements, and so has a \<open>Buffer\<close>, which is not an array: there the method
  visits the bytes, as numbers. On every other value the call raises a \<open>TypeError\<close>
  before anything is joined.\<close>

definition subscribeCount_handler ::
  "namespace \<Rightarrow> sid \<Rightarrow> js_arg \<Rightarrow> namespace \<times> js_error option" where
  "subscribeCount_handler ns s eventTopics =
     (case eventTopics of
        ArgArr ts \<Rightarrow> (subscribeCount_each ns s (map room_to_string ts), None)
      | ArgBuffer bs \<Rightarrow> (subscribeCount_each ns s (map (\<lambda>b. decimal (of_char b)) bs), None)
      | _ \<Rightarrow> (ns, Some TypeError))"

text \<open>The body of \<open>socket.rooms.forEach\<close> in the \<open>disconnecting\<close> handler, for one
  room. \<open>room.includes\<close> exists on a string key only; on a boolean or \<open>null\<close> key the
  call raises.\<close>

definition leave_room :: "namespace \<Rightarrow> sid \<Rightarrow> room \<Rightarrow> js_error + emission list" where
  "leave_room ns s room =
     (if room \<noteq> RStr s then
        (case room of
           RStr k \<Rightarrow>
             if str_includes k '':'' \<and> \<not> str_includes k ''count'' then
               (case rooms ns room of
                  None \<Rightarrow> Inr []
                | Some topicRoom \<Rightarrow>
                    if length topicRoom > 1 then
                      Inr [ns_emit ns (count_key room) ''dataUpdate''
                             (count_payload room (length topicRoom - 1))]
                    else Inr [])
             else Inr []
         | _ \<Rightarrow> Inl TypeError)
      else Inr [])"

text \<open>The loop over the rooms: the emissions made, and the error that ended the loop
  early, if one did.\<close>

fun disconnecting_each :: "namespace \<Rightarrow> sid \<Rightarrow> room list \<Rightarrow> emission list \<times> js_error option" where
  "disconnecting_each ns s [] = ([], None)"
| "disconnecting_each ns s (r # rs) =
     (case leave_room ns s r of
        Inl err \<Rightarrow> ([], Some err)
      | Inr es \<Rightarrow> (let (es', t) = disconnecting_each ns s rs in (es @ es', t)))"

definition disconnecting_handler :: "namespace \<Rightarrow> sid \<Rightarrow> emission list \<times> js_error option" where
  "disconnecting_handler ns s = disconnecting_each ns s (socket_rooms ns s)"

section \<open>The notification service\<close>

text \<open>A notification request as the service destructures it. \<open>eventName\<close> and
  \<open>data\<close> are \<open>None\<close> when the property is absent, which is when the defaults of the
  destructuring apply.\<close>

record notification =
  appId :: string
  users :: js_arg
  devices :: js_arg
  eventTopics :: js_arg
  eventName :: "string option"
  data :: "obj option"

record http_error =
  message :: string
  statusCode :: "nat option"

text \<open>\<open>x && Array.isArray(x) && x.length > 0\<close>\<close>

fun nonempty_array :: "js_arg \<Rightarrow> bool" where
  "nonempty_array (ArgArr xs) = (xs \<noteq> [])"
| "nonempty_array a = False"

fun elems :: "js_arg \<Rightarrow> room list" where
  "elems (ArgArr xs) = xs"
| "elems a = []"

definition validateTargets :: "js_arg \<Rightarrow> js_arg \<Rightarrow> js_arg \<Rightarrow> http_error option" where
  "validateTargets us ds ts =
     (let hasUsers = nonempty_array us;
          hasDevices = nonempty_array ds;
          hasTopics = nonempty_array ts
      in if \<not> hasUsers \<and> \<not> hasDevices \<and> \<not> hasTopics then
           Some \<lparr>message = ''At least one of 'users', 'devices', or 'eventTopics' must be provided'',
                 statusCode = Some 400\<rparr>
         else None)"

text \<open>The objects that the service creates and writes live in a store: the address of
  an object is its position in the list. A property value is kept as a value: the service
  copies an object one level deep and never writes into a nested value.\<close>

type_synonym addr = nat

type_synonym heap = "obj list"

definition heap_read :: "heap \<Rightarrow> addr \<Rightarrow> obj" where
  "heap_read h a = (if a < length h then h ! a else [])"

text \<open>A new object with the given properties, as an object literal creates it.\<close>

definition heap_alloc :: "heap \<Rightarrow> obj \<Rightarrow> addr \<times> heap" where
  "heap_alloc h ob = (length h, h @ [ob])"

text \<open>The assignment \<open>o.k = v\<close>.\<close>

definition heap_write :: "heap \<Rightarrow> addr \<Rightarrow> string \<Rightarrow> jsval \<Rightarrow> heap" where
  "heap_write h a k v = h[a := set_prop (heap_read h a) k v]"

text \<open>\<open>_prepareNotificationData\<close>: \<open>{...data}\<close> is a new object with the properties of
  \<open>data\<close>, into which the two defaults are written. \<open>now\<close> is the value of
  \<open>Date.now()\<close>.\<close>

definition prepareNotificationData :: "int \<Rightarrow> heap \<Rightarrow> addr \<Rightarrow> addr \<times> heap" where
  "prepareNotificationData now h d =
     (let (notificationData, h0) = heap_alloc h (heap_read h d);
          h1 = (if \<not> truthy (get_prop (heap_read h0 notificationData) ''type'')
                then heap_write h0 notificationData ''type'' (JStr ''httpRequest'') else h0);
          h2 = (if \<not> truthy (get_prop (heap_read h1 notificationData) ''timestamp'')
                then heap_write h1 notificationData ''timestamp'' (JNum now) else h1)
      in (notificationData, h2))"

text \<open>Modelled from the spec: a delivery to a target can fail (spec 4.4). The transport
  library, which is not among the sources, keeps six event names for itself, and its
  \<open>emit\<close> raises an error when it is called with one of them.\<close>

definition reserved_event :: "string \<Rightarrow> bool" where
  "reserved_event ev \<longleftrightarrow>
     ev \<in> set [''connect'', ''connect_error'', ''disconnect'', ''disconnecting'',
               ''newListener'', ''removeListener'']"

text \<open>The body of the promise of one target:
  \<open>try { namespace.in(target).emit(eventName, data); resolve({target, success: true}) }
  catch (error) { resolve({target, success: false, error: error.message}) }\<close>.
  It gives the target with its \<open>success\<close> flag, and the emission when one is made: the
  address of the payload object and what is sent, which is the content of that object at
  the time of the call.\<close>

definition try_emit ::
  "namespace \<Rightarrow> room \<Rightarrow> string \<Rightarrow> heap \<Rightarrow> addr \<Rightarrow> (room \<times> bool) \<times> (addr \<times> emission) list" where
  "try_emit ns target ev h a =
     (if reserved_event ev then ((target, False), [])
      else ((target, True), [(a, ns_emit ns target ev (heap_read h a))]))"

text \<open>The three senders. Each target's promise runs its body at once, so the targets
  are served in the order of the list. A sender gives the per-target results, which
  \<open>sendNotification\<close> does not read, and the emissions; \<open>_sendToTopics\<close>, which creates
  the object \<open>{...data, topic}\<close> for each topic before the emit, also gives the store.\<close>

definition sendToUsers ::
  "namespace \<Rightarrow> room list \<Rightarrow> string \<Rightarrow> addr \<Rightarrow> heap \<Rightarrow> (room \<times> bool) list \<times> (addr \<times> emission) list" where
  "sendToUsers ns us ev d h =
     (map (\<lambda>user. fst (try_emit ns user ev h d)) us,
      concat (map (\<lambda>user. snd (try_emit ns user ev h d)) us))"

definition sendToDevices ::
  "namespace \<Rightarrow> room list \<Rightarrow> string \<Rightarrow> addr \<Rightarrow> heap \<Rightarrow> (room \<times> bool) list \<times> (addr \<times> emission) list" where
  "sendToDevices ns ds ev d h =
     (map (\<lambda>device. fst (try_emit ns device ev h d)) ds,
      concat (map (\<lambda>device. snd (try_emit ns device ev h d)) ds))"

fun sendToTopics ::
  "namespace \<Rightarrow> room list \<Rightarrow> string \<Rightarrow> addr \<Rightarrow> heap \<Rightarrow>
   (room \<times> bool) list \<times> (addr \<times> emission) list \<times> heap" where
  "sendToTopics ns [] ev d h = ([], [], h)"
| "sendToTopics ns (topic # ts) ev d h =
     (let (topicData, h1) = heap_alloc h (set_prop (heap_read h d) ''topic'' (room_val topic));
          (r, es) = try_emit ns topic ev h1 topicData;
          (rs, es', h2) = sendToTopics ns ts ev d h1
      in (r # rs, es @ es', h2))"

text \<open>The namespaces of the server, by name.\<close>

type_synonym io = "string \<rightharpoonup> namespace"

text \<open>Modelled from the spec: the registry of namespaces of the transport library,
  \<open>io.of(name)\<close>, which returns the namespace of that name, the same at every call, and
  creates an empty one when there is none.\<close>

definition io_of :: "io \<Rightarrow> string \<Rightarrow> namespace \<times> io" where
  "io_of i nm =
     (case i nm of
        Some ns \<Rightarrow> (ns, i)
      | None \<Rightarrow> (empty_namespace, i(nm \<mapsto> empty_namespace)))"

text \<open>\<open>x?.length || 0\<close>\<close>

fun target_count :: "js_arg \<Rightarrow> jsval" where
  "target_count (ArgArr xs) = JNum (int (length xs))"
| "target_count (ArgStr s) = JNum (int (length s))"
| "target_count (ArgObj ob) =
     (if truthy (get_prop ob ''length'') then get_prop ob ''length'' else JNum 0)"
| "target_count (ArgBuffer bs) = JNum (int (length bs))"
| "target_count (ArgFunction n) = JNum (int n)"
| "target_count a = JNum 0"

record send_result =
  success :: bool
  result_message :: string
  userTargets :: jsval
  deviceTargets :: jsval
  topicTargets :: jsval

text \<open>\<open>sendNotification\<close> with the store it works on. The store starts with the
  caller's \<open>data\<close> object, or the empty default object when \<open>data\<close> is absent, at
  address 0. The result is the error thrown or the result returned, the registry
  afterwards, the emissions made, each with the name of the namespace it was made on and
  the address of its payload object, and the store afterwards.\<close>

definition sendNotification_store ::
  "io \<Rightarrow> int \<Rightarrow> notification \<Rightarrow>
   (http_error + send_result) \<times> io \<times> (string \<times> addr \<times> emission) list \<times> heap" where
  "sendNotification_store i now req =
     (let ev = (case eventName req of None \<Rightarrow> ''dataUpdate'' | Some e \<Rightarrow> e);
          (d, h0) = heap_alloc [] (case data req of None \<Rightarrow> [] | Some d0 \<Rightarrow> d0)
      in case validateTargets (users req) (devices req) (eventTopics req) of
           Some err \<Rightarrow> (Inl err, i, [], h0)
         | None \<Rightarrow>
             (let (notificationPayload, h1) = prepareNotificationData now h0 d;
                  nm = ''/'' @ appId req;
                  (ns, i') = io_of i nm;
                  (r1, t1) = (if nonempty_array (users req)
                              then sendToUsers ns (elems (users req)) ev notificationPayload h1
                              else ([], []));
                  (r2, t2) = (if nonempty_array (devices req)
                              then sendToDevices ns (elems (devices req)) ev notificationPayload h1
                              else ([], []));
                  (r3, t3, h2) = (if nonempty_array (eventTopics req)
                                  then sendToTopics ns (elems (eventTopics req)) ev notificationPayload h1
                                  else ([], [], h1))
              in (Inr \<lparr>success = True,
                       result_message = ''Notification sent successfully'',
                       userTargets = target_count (users req),
                       deviceTargets = target_count (devices req),
                       topicTargets = target_count (eventTopics req)\<rparr>,
                  i', map (Pair nm) (t1 @ t2 @ t3), h2)))"

text \<open>\<open>sendNotification\<close> as its caller and the clients see it: the error thrown or the
  result returned, the registry afterwards, and the emissions made, each with the name of
  the namespace it was made on.\<close>

definition sendNotification ::
  "io \<Rightarrow> int \<Rightarrow> notification \<Rightarrow> (http_error + send_result) \<times> io \<times> (string \<times> emission) list" where
  "sendNotification i now req =
     (case sendNotification_store i now req of
        (res, i', es, h) \<Rightarrow> (res, i', map (\<lambda>(nm, a, e). (nm, e)) es))"

text \<open>The controller of \<open>POST /notify\<close>: the status and body of the response.\<close>

record response =
  status :: nat
  body :: "string + send_result"

definition controller_sendNotification ::
  "io \<Rightarrow> int \<Rightarrow> notification \<Rightarrow> response \<times> io \<times> (string \<times> emission) list" where
  "controller_sendNotification i now req =
     (case sendNotification i now req of
        (Inr res, i', es) \<Rightarrow> (\<lparr>status = 200, body = Inr res\<rparr>, i', es)
      | (Inl err, i', es) \<Rightarrow>
          (\<lparr>status = (case statusCode err of Some c \<Rightarrow> if c \<noteq> 0 then c else 500 | None \<Rightarrow> 500),
            body = Inl (if message err \<noteq> [] then message err else ''Internal server error'')\<rparr>,
           i', es))"

section \<open>Scenarios and predicates used to state the properties\<close>

text \<open>The argument is an array all of whose elements are strings.\<close>

definition is_string_list :: "js_arg \<Rightarrow> bool" where
  "is_string_list a =
     (case a of
        ArgArr ts \<Rightarrow> list_all (\<lambda>t. case t of RStr k \<Rightarrow> True | _ \<Rightarrow> False) ts
      | _ \<Rightarrow> False)"


text \<open>A namespace in which connection \<open>c\<close> has sent \<open>subscribeCount(["news:x"])\<close>.\<close>

definition ns_count_x :: namespace where
  "ns_count_x =
     fst (subscribeCount_handler (socket_join empty_namespace ''c'' (RStr ''c'')) ''c''
            (ArgArr [RStr ''news:x'']))"

text \<open>The invariant of the store: the two maps describe the same membership relation,
  the sets hold no duplicates, and no room is empty.\<close>

definition store_ok :: "namespace \<Rightarrow> bool" where
  "store_ok ns \<longleftrightarrow>
     (\<forall>s rs. sids ns s = Some rs \<longrightarrow> distinct rs \<and> (\<forall>r\<in>set rs. s \<in> set (members ns r)))
     \<and> (\<forall>r ms. rooms ns r = Some ms \<longrightarrow>
            distinct ms \<and> ms \<noteq> [] \<and> (\<forall>s\<in>set ms. r \<in> set (socket_rooms ns s)))"

text \<open>All keys of the list are strings, as the keys of the data model are.\<close>

definition all_string_keys :: "room list \<Rightarrow> bool" where
  "all_string_keys rs = list_all (\<lambda>r. case r of RStr k \<Rightarrow> True | _ \<Rightarrow> False) rs"

text \<open>What the \<open>disconnecting\<close> handler emits for a room with the string key \<open>k\<close>.\<close>

definition leave_emits :: "namespace \<Rightarrow> sid \<Rightarrow> string \<Rightarrow> emission list" where
  "leave_emits ns s k =
     (if k \<noteq> s \<and> str_includes k '':'' \<and> \<not> str_includes k ''count'' \<and> 1 < room_size ns (RStr k)
      then [\<lparr>e_room = RStr (k @ '':count''), e_event = ''dataUpdate'',
             e_payload = [(''type'', JStr ''count''), (''topic'', JStr k),
                          (''count'', JNum (int (room_size ns (RStr k) - 1)))],
             e_to = members ns (RStr (k @ '':count''))\<rparr>]
      else [])"

text \<open>Two connections subscribed to \<open>"news:x"\<close>; nobody has asked for counts.\<close>

definition ns_pair :: namespace where
  "ns_pair =
     (let n1 = on_connection empty_namespace ''s1'' (Some ''alice'') None;
          n2 = fst (subscribe_handler n1 ''s1'' (ArgArr [RStr ''news:x'']));
          n3 = on_connection n2 ''s2'' None (Some ''phone'');
          n4 = fst (subscribe_handler n3 ''s2'' (ArgArr [RStr ''news:x'']))
      in n4)"

text \<open>A namespace in which connection \<open>c\<close> has sent \<open>subscribeCount([true])\<close>.\<close>

definition ns_count_true :: namespace where
  "ns_count_true =
     fst (subscribeCount_handler (socket_join empty_namespace ''c'' (RStr ''c'')) ''c''
            (ArgArr [RBool True]))"

text \<open>Two applications, \<open>a\<close> and \<open>b\<close>, each with one connection of client \<open>u1\<close>
  subscribed to \<open>"news:x"\<close>.\<close>

definition io_ab :: io where
  "io_ab =
     [''/a'' \<mapsto> fst (subscribe_handler (on_connection empty_namespace ''sa'' (Some ''u1'') None)
                        ''sa'' (ArgArr [RStr ''news:x''])),
      ''/b'' \<mapsto> fst (subscribe_handler (on_connection empty_namespace ''sb'' (Some ''u1'') None)
                        ''sb'' (ArgArr [RStr ''news:x'']))]"

text \<open>The connection \<open>s\<close> of the namespace \<open>nm\<close> receives the emission.\<close>

definition receives :: "string \<Rightarrow> sid \<Rightarrow> string \<times> emission \<Rightarrow> bool" where
  "receives nm s e \<longleftrightarrow> fst e = nm \<and> s \<in> set (e_to (snd e))"

text \<open>Connection \<open>c\<close> has asked for the counts of two topics. \<open>s1\<close> has sent
  \<open>subscribe(["news:x", true, "other:y"])\<close> and \<open>s2\<close> has sent
  \<open>subscribe(["news:x", "other:y"])\<close>.\<close>

definition ns_mixed :: namespace where
  "ns_mixed =
     (let n0 = on_connection empty_namespace ''c'' None None;
          n1 = fst (subscribeCount_handler n0 ''c'' (ArgArr [RStr ''news:x'', RStr ''other:y'']));
          n2 = on_connection n1 ''s1'' None None;
          n3 = fst (subscribe_handler n2 ''s1'' (ArgArr [RStr ''news:x'', RBool True, RStr ''other:y'']));
          n4 = on_connection n3 ''s2'' None None;
          n5 = fst (subscribe_handler n4 ''s2'' (ArgArr [RStr ''news:x'', RStr ''other:y'']))
      in n5)"

text \<open>The effective payload of a request whose \<open>data\<close> has the properties \<open>ob\<close>: the
  content of the object that \<open>_prepareNotificationData\<close> returns.\<close>

definition effective_payload :: "int \<Rightarrow> obj \<Rightarrow> obj" where
  "effective_payload now ob =
     (case prepareNotificationData now [ob] 0 of (a, h) \<Rightarrow> heap_read h a)"

section \<open>Properties\<close>

subsection \<open>The store and the on-join hook\<close>

lemma count_key_neq: "count_key t \<noteq> t"
  by (cases t) (auto simp: count_key_def)


lemma members_join_other: "r' \<noteq> r \<Longrightarrow> members (socket_join ns s r) r' = members ns r'"
  by (simp add: socket_join_def members_def)

lemma set_add_nonempty: "set_add x xs \<noteq> []"
  by (auto simp: set_add_def)

lemma subscribe_topic_eq:
  "subscribe_topic ns s t =
     (socket_join ns s t,
      if members ns (count_key t) \<noteq> [] then
        [\<lparr>e_room = count_key t, e_event = ''dataUpdate'',
          e_payload = count_payload t (length (set_add s (members ns t))),
          e_to = members ns (count_key t)\<rparr>]
      else [])"
proof -
  have a: "rooms (socket_join ns s t) t = Some (set_add s (members ns t))"
    by (simp add: socket_join_def)
  have b: "rooms (socket_join ns s t) (count_key t) = rooms ns (count_key t)"
    using count_key_neq [of t] by (simp add: socket_join_def)
  have c: "members (socket_join ns s t) (count_key t) = members ns (count_key t)"
    using count_key_neq [of t] by (simp add: members_join_other)
  have d: "rooms ns (count_key t) = None \<Longrightarrow> members ns (count_key t) = []"
    by (simp add: members_def)
  have e: "rooms ns (count_key t) = Some ms \<Longrightarrow> members ns (count_key t) = ms" for ms
    by (simp add: members_def)
  show ?thesis
    using set_add_nonempty [of s "members ns t"]
    by (simp add: subscribe_topic_def Let_def a b ns_emit_def c d e split: option.splits)
qed

lemma subscribe_topic_guard:
  "members (socket_join ns s t) (count_key t) = [] \<Longrightarrow> snd (subscribe_topic ns s t) = []"
  using count_key_neq [of t] by (simp add: subscribe_topic_eq members_join_other)


lemmas store_eval =
  socket_join_def members_def socket_rooms_def empty_namespace_def count_key_def set_add_def
  room_size_def ns_emit_def count_payload_def



subsection \<open>The invariant of the store\<close>

lemma store_ok_empty: "store_ok empty_namespace"
  by (simp add: store_ok_def empty_namespace_def)

lemma distinct_set_add: "distinct xs \<Longrightarrow> distinct (set_add x xs)"
  by (simp add: set_add_def)

lemma set_set_add: "set (set_add x xs) = insert x (set xs)"
  by (auto simp: set_add_def)

lemma members_join:
  "members (socket_join ns s r) r' = (if r' = r then set_add s (members ns r) else members ns r')"
  by (simp add: socket_join_def members_def)

lemma socket_rooms_join:
  "socket_rooms (socket_join ns s r) s' =
     (if s' = s then set_add r (socket_rooms ns s) else socket_rooms ns s')"
  by (simp add: socket_join_def socket_rooms_def)

lemma store_ok_rooms_distinct: "store_ok ns \<Longrightarrow> distinct (socket_rooms ns s)"
  by (auto simp: store_ok_def socket_rooms_def split: option.splits)

lemma store_ok_members_distinct: "store_ok ns \<Longrightarrow> distinct (members ns r)"
  by (auto simp: store_ok_def members_def split: option.splits)

lemma store_ok_in_members:
  assumes "store_ok ns" and "r \<in> set (socket_rooms ns s)"
  shows "s \<in> set (members ns r)"
proof (cases "sids ns s")
  case None
  with assms(2) show ?thesis by (simp add: socket_rooms_def)
next
  case (Some rs)
  with assms(2) have "r \<in> set rs" by (simp add: socket_rooms_def)
  with Some assms(1) show ?thesis unfolding store_ok_def by blast
qed

lemma store_ok_in_rooms:
  assumes "store_ok ns" and "s \<in> set (members ns r)"
  shows "r \<in> set (socket_rooms ns s)"
proof (cases "rooms ns r")
  case None
  with assms(2) show ?thesis by (simp add: members_def)
next
  case (Some ms)
  with assms(2) have "s \<in> set ms" by (simp add: members_def)
  with Some assms(1) show ?thesis unfolding store_ok_def by blast
qed

lemma store_ok_join:
  assumes "store_ok ns"
  shows "store_ok (socket_join ns s r)"
proof -
  let ?n = "socket_join ns s r"
  have ne: "rooms ns r' = Some ms \<Longrightarrow> ms \<noteq> []" for r' ms
    using assms by (auto simp: store_ok_def)
  have A: "sids ?n s' = Some rs \<Longrightarrow> distinct rs \<and> (\<forall>r'\<in>set rs. s' \<in> set (members ?n r'))" for s' rs
  proof -
    assume a: "sids ?n s' = Some rs"
    then have rs: "rs = socket_rooms ?n s'" by (simp add: socket_rooms_def)
    show ?thesis
      unfolding rs socket_rooms_join members_join
      using store_ok_rooms_distinct [OF assms, of s'] store_ok_rooms_distinct [OF assms, of s]
        store_ok_in_members [OF assms]
      by (auto simp: distinct_set_add set_set_add)
  qed
  have B: "rooms ?n r' = Some ms \<Longrightarrow>
      distinct ms \<and> ms \<noteq> [] \<and> (\<forall>s'\<in>set ms. r' \<in> set (socket_rooms ?n s'))" for r' ms
  proof -
    assume a: "rooms ?n r' = Some ms"
    then have ms: "ms = members ?n r'" by (simp add: members_def)
    have "ms \<noteq> []"
    proof (cases "r' = r")
      case True
      then show ?thesis using a by (auto simp: socket_join_def set_add_def split: if_splits)
    next
      case False
      then show ?thesis using a ne [of r' ms] by (simp add: socket_join_def)
    qed
    then show ?thesis
      unfolding ms socket_rooms_join members_join
      using store_ok_members_distinct [OF assms, of r'] store_ok_members_distinct [OF assms, of r]
        store_ok_in_rooms [OF assms]
      by (auto simp: distinct_set_add set_set_add)
  qed
  show ?thesis
    unfolding store_ok_def using A B by blast
qed

lemma rooms_del_room:
  "rooms (del_room ns s a) r =
     (if r = a then
        (case rooms ns a of None \<Rightarrow> None
         | Some ms \<Rightarrow> if removeAll s ms = [] then None else Some (removeAll s ms))
      else rooms ns r)"
  by (simp add: del_room_def Let_def split: option.splits)

lemma sids_del_room: "sids (del_room ns s a) = sids ns"
  by (simp add: del_room_def Let_def split: option.splits)

lemma rooms_fold_del:
  "rooms (fold (\<lambda>r n. del_room n s r) rs ns) r =
     (if r \<in> set rs then
        (case rooms ns r of None \<Rightarrow> None
         | Some ms \<Rightarrow> if removeAll s ms = [] then None else Some (removeAll s ms))
      else rooms ns r)"
proof (induction rs arbitrary: ns)
  case Nil
  then show ?case by simp
next
  case (Cons a rs)
  show ?case
    by (simp add: Cons.IH rooms_del_room split: option.splits)
qed

lemma sids_fold_del: "sids (fold (\<lambda>r n. del_room n s r) rs ns) = sids ns"
  by (induction rs arbitrary: ns) (simp_all add: sids_del_room)

lemma members_leave_all:
  assumes "store_ok ns"
  shows "members (leave_all ns s) r = removeAll s (members ns r)"
proof (cases "sids ns s")
  case None
  then have "socket_rooms ns s = []" by (simp add: socket_rooms_def)
  then have "s \<notin> set (members ns r)"
    using store_ok_in_rooms [OF assms, of s r] by auto
  with None show ?thesis by (simp add: leave_all_def)
next
  case (Some rs)
  then have sr: "socket_rooms ns s = rs" by (simp add: socket_rooms_def)
  have r: "rooms (leave_all ns s) r =
     (if r \<in> set rs then
        (case rooms ns r of None \<Rightarrow> None
         | Some ms \<Rightarrow> if removeAll s ms = [] then None else Some (removeAll s ms))
      else rooms ns r)"
    using Some by (simp add: leave_all_def rooms_fold_del)
  show ?thesis
  proof (cases "r \<in> set rs")
    case True
    then show ?thesis by (simp add: members_def r split: option.splits)
  next
    case False
    then have "s \<notin> set (members ns r)"
      using store_ok_in_rooms [OF assms, of s r] sr by auto
    with False show ?thesis by (simp add: members_def r)
  qed
qed

lemma room_size_leave_all:
  assumes "store_ok ns" and "r \<in> set (socket_rooms ns s)"
  shows "room_size (leave_all ns s) r = room_size ns r - 1"
proof -
  have d: "distinct (members ns r)" using assms(1) by (rule store_ok_members_distinct)
  have m: "s \<in> set (members ns r)" using assms by (rule store_ok_in_members)
  have "length (removeAll s (members ns r)) = length (members ns r) - 1"
    using d m by (simp add: distinct_remove1_removeAll [symmetric] length_remove1)
  then show ?thesis by (simp add: room_size_def members_leave_all [OF assms(1)])
qed

lemma socket_rooms_leave_all:
  "socket_rooms (leave_all ns s) s' = (if s' = s then [] else socket_rooms ns s')"
  by (simp add: leave_all_def socket_rooms_def sids_fold_del split: option.splits)

lemma store_ok_leave_all:
  assumes "store_ok ns"
  shows "store_ok (leave_all ns s)"
proof -
  let ?n = "leave_all ns s"
  have A: "sids ?n s' = Some rs \<Longrightarrow> distinct rs \<and> (\<forall>r\<in>set rs. s' \<in> set (members ?n r))" for s' rs
  proof -
    assume a: "sids ?n s' = Some rs"
    then have rs: "rs = socket_rooms ?n s'" by (simp add: socket_rooms_def)
    have ne: "s' \<noteq> s"
      using a by (auto simp: leave_all_def sids_fold_del split: option.splits)
    show ?thesis
      unfolding rs socket_rooms_leave_all members_leave_all [OF assms]
      using ne store_ok_rooms_distinct [OF assms, of s'] store_ok_in_members [OF assms, of _ s']
      by auto
  qed
  have B: "rooms ?n r = Some ms \<Longrightarrow> distinct ms \<and> ms \<noteq> [] \<and> (\<forall>s'\<in>set ms. r \<in> set (socket_rooms ?n s'))" for r ms
  proof -
    assume a: "rooms ?n r = Some ms"
    then have ms: "ms = members ?n r" by (simp add: members_def)
    have ne: "ms \<noteq> []"
    proof (cases "sids ns s")
      case None
      then show ?thesis using a assms by (auto simp: leave_all_def store_ok_def)
    next
      case (Some rs)
      then have "rooms ?n r = (if r \<in> set rs then
        (case rooms ns r of None \<Rightarrow> None
         | Some ms \<Rightarrow> if removeAll s ms = [] then None else Some (removeAll s ms))
        else rooms ns r)"
        by (simp add: leave_all_def rooms_fold_del)
      then show ?thesis using a assms
        by (auto simp: store_ok_def split: if_splits option.splits)
    qed
    show ?thesis
      unfolding ms socket_rooms_leave_all members_leave_all [OF assms]
      using ne ms members_leave_all [OF assms, of s r] store_ok_members_distinct [OF assms, of r]
        store_ok_in_rooms [OF assms, of _ r]
      by (auto simp: distinct_removeAll)
  qed
  show ?thesis
    unfolding store_ok_def using A B by blast
qed

lemma store_ok_join_header: "store_ok ns \<Longrightarrow> store_ok (join_header ns s h)"
  by (simp add: join_header_def store_ok_join split: option.splits)

lemma store_ok_on_connection: "store_ok ns \<Longrightarrow> store_ok (on_connection ns s c d)"
  by (simp add: on_connection_def store_ok_join_header store_ok_join)

lemma fst_subscribe_each_Cons:
  "fst (subscribe_each ns s (t # ts)) = fst (subscribe_each (socket_join ns s t) s ts)"
  by (simp add: subscribe_topic_eq case_prod_unfold Let_def)

lemma store_ok_subscribe_each: "store_ok ns \<Longrightarrow> store_ok (fst (subscribe_each ns s ts))"
  by (induction ts arbitrary: ns) (simp_all add: fst_subscribe_each_Cons store_ok_join del: subscribe_each.simps(2))

lemma store_ok_subscribe_handler: "store_ok ns \<Longrightarrow> store_ok (fst (subscribe_handler ns s a))"
  by (cases a) (simp_all add: subscribe_handler_def case_prod_unfold Let_def store_ok_subscribe_each)

lemma store_ok_subscribeCount_each: "store_ok ns \<Longrightarrow> store_ok (subscribeCount_each ns s ts)"
  by (induction ts arbitrary: ns) (simp_all add: store_ok_join)

lemma store_ok_subscribeCount_handler:
  "store_ok ns \<Longrightarrow> store_ok (fst (subscribeCount_handler ns s a))"
  by (cases a) (simp_all add: subscribeCount_handler_def store_ok_subscribeCount_each)

subsection \<open>The stores of the scenarios\<close>

lemma members_empty: "members empty_namespace r = []"
  by (simp add: members_def empty_namespace_def)

lemma socket_rooms_empty: "socket_rooms empty_namespace s = []"
  by (simp add: socket_rooms_def empty_namespace_def)

lemma fst_subscribe_handler_Nil: "fst (subscribe_handler ns s (ArgArr [])) = ns"
  by (simp add: subscribe_handler_def)

lemma fst_subscribe_handler_Cons:
  "fst (subscribe_handler ns s (ArgArr (t # ts))) =
     fst (subscribe_handler (socket_join ns s t) s (ArgArr ts))"
  using fst_subscribe_each_Cons [of ns s t ts]
  by (simp add: subscribe_handler_def case_prod_unfold Let_def del: subscribe_each.simps(2))

lemmas state_eval =
  on_connection_def join_header_def fst_subscribe_handler_Nil fst_subscribe_handler_Cons
  members_join socket_rooms_join members_empty socket_rooms_empty set_add_def count_key_def

lemma ns_pair_rooms_s1: "socket_rooms ns_pair ''s1'' = [RStr ''s1'', RStr ''alice'', RStr ''news:x'']"
  by (simp add: ns_pair_def state_eval)

lemma ns_pair_members: "members ns_pair (RStr ''news:x'') = [''s1'', ''s2'']"
  by (simp add: ns_pair_def state_eval)

lemma ns_pair_count: "members ns_pair (RStr ''news:x:count'') = []"
  by (simp add: ns_pair_def state_eval)

subsection \<open>Malformed arguments of \<open>subscribe\<close> and \<open>subscribeCount\<close>\<close>

lemma decimal_65: "decimal 65 = ''65''"
  by (simp add: decimal.simps [of 65] decimal.simps [of 6])

lemma socket_rooms_subscribeCount_each:
  "set (socket_rooms (subscribeCount_each ns s ts) s) =
     set (socket_rooms ns s) \<union> (\<lambda>t. RStr (t @ '':count'')) ` set ts"
  by (induction ts arbitrary: ns) (auto simp: socket_rooms_join set_set_add)

lemma sids_subscribeCount_each_other:
  "s' \<noteq> s \<Longrightarrow> socket_rooms (subscribeCount_each ns s ts) s' = socket_rooms ns s'"
  by (induction ts arbitrary: ns) (simp_all add: socket_rooms_join)

text \<open>
  C9, as stated, fails: an array whose element is not a string passes the only test the
  handler makes. With \<open>subscribe([true])\<close>, while a connection is in the room
  \<open>"true:count"\<close>, the connection is joined to the room \<open>true\<close> and a count broadcast
  is made; no warning is logged.
\<close>

theorem C9_counterexample:
  "\<not> is_string_list (ArgArr [RBool True])
   \<and> members ns_count_true (RBool True) = []
   \<and> subscribe_handler ns_count_true ''s1'' (ArgArr [RBool True]) =
       (socket_join ns_count_true ''s1'' (RBool True),
        [\<lparr>e_room = RStr ''true:count'', e_event = ''dataUpdate'',
          e_payload = [(''type'', JStr ''count''), (''topic'', JBool True), (''count'', JNum 1)],
          e_to = [''c'']\<rparr>],
        False, None)
   \<and> members (socket_join ns_count_true ''s1'' (RBool True)) (RBool True) = [''s1'']"
  by (simp add: is_string_list_def subscribe_handler_def subscribe_topic_eq ns_count_true_def
      subscribeCount_handler_def store_eval)

text \<open>For the object \<open>{"toString": 1}\<close>, which is not an array, the text of the warning
  cannot be built: the handler raises before it logs.\<close>

lemma subscribe_toString_object_raises:
  "\<not> is_array (ArgObj [(''toString'', JNum 1)])
   \<and> subscribe_handler ns_count_x ''s1'' (ArgObj [(''toString'', JNum 1)]) =
       (ns_count_x, [], False, Some TypeError)"
  by (simp add: subscribe_handler_def has_prop_def)

text \<open>
  C9, amended. For every argument of \<open>subscribe\<close> that is not an array, no room is
  joined, no emission is made and the store is unchanged. For every such argument other
  than an object with an own property \<open>toString\<close>, the request is rejected silently: the
  warning is logged and no error is raised.
\<close>

theorem C9_non_array_rejected:
  "\<not> is_array a \<Longrightarrow>
   fst (subscribe_handler ns s a) = ns
   \<and> fst (snd (subscribe_handler ns s a)) = []
   \<and> ((\<forall>ob. a = ArgObj ob \<longrightarrow> map_of ob ''toString'' = None) \<longrightarrow>
        subscribe_handler ns s a = (ns, [], True, None))"
  by (cases a) (simp_all add: subscribe_handler_def has_prop_def)

theorem C9_non_array_rejected_witness:
  "\<not> is_array (ArgStr ''news:x'')
   \<and> subscribe_handler ns_count_x ''s1'' (ArgStr ''news:x'') = (ns_count_x, [], True, None)
   \<and> \<not> is_array (ArgObj [(''topics'', JArr [JStr ''news:x''])])
   \<and> map_of [(''topics'', JArr [JStr ''news:x''])] ''toString'' = None
   \<and> subscribe_handler ns_count_x ''s1'' (ArgObj [(''topics'', JArr [JStr ''news:x''])]) =
       (ns_count_x, [], True, None)
   \<and> \<not> is_array (ArgObj [(''toString'', JNum 1)])
   \<and> fst (subscribe_handler ns_count_x ''s1'' (ArgObj [(''toString'', JNum 1)])) = ns_count_x
   \<and> fst (snd (subscribe_handler ns_count_x ''s1'' (ArgObj [(''toString'', JNum 1)]))) = []"
  using C9_non_array_rejected [of "ArgStr ''news:x''" ns_count_x "''s1''"]
    C9_non_array_rejected [of "ArgObj [(''topics'', JArr [JStr ''news:x''])]" ns_count_x "''s1''"]
    C9_non_array_rejected [of "ArgObj [(''toString'', JNum 1)]" ns_count_x "''s1''"]
  by simp

text \<open>
  C10, as stated, fails: a binary payload is not an array, but it has \<open>forEach\<close>. With
  the one-byte payload 65 the handler does not raise; it joins the room \<open>"65:count"\<close>.
\<close>

theorem C10_counterexample:
  "\<not> is_array (ArgBuffer [CHR ''A''])
   \<and> subscribeCount_handler (socket_join empty_namespace ''s1'' (RStr ''s1'')) ''s1'' (ArgBuffer [CHR ''A'']) =
       (socket_join (socket_join empty_namespace ''s1'' (RStr ''s1'')) ''s1'' (RStr ''65:count''), None)
   \<and> members (socket_join (socket_join empty_namespace ''s1'' (RStr ''s1'')) ''s1'' (RStr ''65:count''))
         (RStr ''65:count'') = [''s1'']"
  by (simp add: subscribeCount_handler_def decimal_65 state_eval)

text \<open>
  C10, amended. For every argument of \<open>subscribeCount\<close> that is neither an array nor a
  binary payload (\<open>undefined\<close>, \<open>null\<close>, a boolean, a number, a string, a plain object
  or a function), the handler raises a \<open>TypeError\<close> at the call of \<open>forEach\<close> and the
  store is unchanged: no room is joined. For a binary payload the handler raises nothing
  and joins, for every byte \<open>b\<close> of the payload, the room whose key is the decimal
  numeral of \<open>b\<close> followed by \<open>":count"\<close>.
\<close>

theorem C10_subscribeCount_non_array:
  "(\<not> is_array a \<and> (\<forall>bs. a \<noteq> ArgBuffer bs) \<longrightarrow>
      subscribeCount_handler ns s a = (ns, Some TypeError))
   \<and> snd (subscribeCount_handler ns s (ArgBuffer bs)) = None
   \<and> set (socket_rooms (fst (subscribeCount_handler ns s (ArgBuffer bs))) s) =
       set (socket_rooms ns s) \<union> (\<lambda>b. RStr (decimal (of_char b) @ '':count'')) ` set bs"
proof (intro conjI impI)
  assume "\<not> is_array a \<and> (\<forall>bs. a \<noteq> ArgBuffer bs)"
  then show "subscribeCount_handler ns s a = (ns, Some TypeError)"
    by (cases a) (simp_all add: subscribeCount_handler_def)
next
  show "snd (subscribeCount_handler ns s (ArgBuffer bs)) = None"
    by (simp add: subscribeCount_handler_def)
next
  show "set (socket_rooms (fst (subscribeCount_handler ns s (ArgBuffer bs))) s) =
       set (socket_rooms ns s) \<union> (\<lambda>b. RStr (decimal (of_char b) @ '':count'')) ` set bs"
    by (auto simp: subscribeCount_handler_def socket_rooms_subscribeCount_each)
qed

theorem C10_subscribeCount_non_array_witness:
  "\<not> is_array (ArgStr ''news:x'') \<and> (ArgStr ''news:x'' \<noteq> ArgBuffer [CHR ''A''])
   \<and> subscribeCount_handler empty_namespace ''s1'' (ArgStr ''news:x'') = (empty_namespace, Some TypeError)
   \<and> subscribeCount_handler empty_namespace ''s1'' (ArgObj [(''forEach'', JNum 1)]) =
       (empty_namespace, Some TypeError)
   \<and> subscribeCount_handler empty_namespace ''s1'' (ArgFunction 0) = (empty_namespace, Some TypeError)
   \<and> snd (subscribeCount_handler empty_namespace ''s1'' (ArgBuffer [CHR ''A''])) = None
   \<and> set (socket_rooms (fst (subscribeCount_handler empty_namespace ''s1'' (ArgBuffer [CHR ''A'']))) ''s1'') =
       {RStr ''65:count''}"
  using C10_subscribeCount_non_array [of "ArgStr ''news:x''" empty_namespace "''s1''" "[CHR ''A'']"]
    C10_subscribeCount_non_array [of "ArgObj [(''forEach'', JNum 1)]" empty_namespace "''s1''" "[]"]
    C10_subscribeCount_non_array [of "ArgFunction 0" empty_namespace "''s1''" "[]"]
  by (simp add: decimal_65 socket_rooms_empty)

subsection \<open>The on-leave hook\<close>

lemma starts_with_iff: "starts_with s sub \<longleftrightarrow> (\<exists>q. s = sub @ q)"
  by (induction s sub rule: starts_with.induct) auto

lemma str_includes_iff: "str_includes s sub \<longleftrightarrow> (\<exists>p q. s = p @ sub @ q)"
proof (induction s)
  case Nil
  then show ?case by auto
next
  case (Cons d ds)
  have "(\<exists>p q. d # ds = p @ sub @ q) \<longleftrightarrow> (\<exists>q. d # ds = sub @ q) \<or> (\<exists>p q. ds = p @ sub @ q)"
  proof
    assume "\<exists>p q. d # ds = p @ sub @ q"
    then obtain p q where e: "d # ds = p @ sub @ q" by blast
    show "(\<exists>q. d # ds = sub @ q) \<or> (\<exists>p q. ds = p @ sub @ q)"
    proof (cases p)
      case Nil
      with e show ?thesis by auto
    next
      case (Cons a p')
      with e have "ds = p' @ sub @ q" by simp
      then show ?thesis by blast
    qed
  next
    assume "(\<exists>q. d # ds = sub @ q) \<or> (\<exists>p q. ds = p @ sub @ q)"
    then show "\<exists>p q. d # ds = p @ sub @ q"
    proof
      assume "\<exists>q. d # ds = sub @ q"
      then obtain q where "d # ds = [] @ sub @ q" by auto
      then show ?thesis by blast
    next
      assume "\<exists>p q. ds = p @ sub @ q"
      then obtain p q where "ds = p @ sub @ q" by blast
      then have "d # ds = (d # p) @ sub @ q" by simp
      then show ?thesis by blast
    qed
  qed
  then show ?case
    using Cons.IH by (simp add: starts_with_iff)
qed

lemma leave_room_str: "leave_room ns s (RStr k) = Inr (leave_emits ns s k)"
  by (auto simp: leave_room_def leave_emits_def ns_emit_def count_key_def count_payload_def
      room_size_def members_def split: option.splits)

lemma disconnecting_each_strings:
  "all_string_keys rs \<Longrightarrow>
   disconnecting_each ns s rs =
     (concat (map (\<lambda>r. case r of RStr k \<Rightarrow> leave_emits ns s k | _ \<Rightarrow> []) rs), None)"
proof (induction rs)
  case Nil
  then show ?case by simp
next
  case (Cons r rs)
  then obtain k where r: "r = RStr k"
    by (cases r) (auto simp: all_string_keys_def)
  from Cons show ?case
    by (simp add: r leave_room_str all_string_keys_def)
qed

lemma filter_leave_emits:
  "filter (\<lambda>e. e_room e = RStr (k @ '':count'')) (leave_emits ns s k') =
     (if k' = k then leave_emits ns s k else [])"
  by (simp add: leave_emits_def)

lemma filter_concat_leave:
  "all_string_keys rs \<Longrightarrow> distinct rs \<Longrightarrow>
   filter (\<lambda>e. e_room e = RStr (k @ '':count''))
     (concat (map (\<lambda>r. case r of RStr k \<Rightarrow> leave_emits ns s k | _ \<Rightarrow> []) rs)) =
     (if RStr k \<in> set rs then leave_emits ns s k else [])"
proof (induction rs)
  case Nil
  then show ?case by simp
next
  case (Cons r rs)
  then obtain k' where r: "r = RStr k'"
    by (cases r) (auto simp: all_string_keys_def)
  from Cons show ?case
    by (auto simp: r filter_leave_emits all_string_keys_def)
qed

lemma disconnecting_no_throw:
  "all_string_keys (socket_rooms ns s) \<Longrightarrow> snd (disconnecting_handler ns s) = None"
  by (simp add: disconnecting_handler_def disconnecting_each_strings)

lemma disconnecting_filter:
  assumes "store_ok ns" and "all_string_keys (socket_rooms ns s)"
  shows "filter (\<lambda>e. e_room e = RStr (k @ '':count'')) (fst (disconnecting_handler ns s)) =
           (if RStr k \<in> set (socket_rooms ns s) then leave_emits ns s k else [])"
  using assms
  by (simp add: disconnecting_handler_def disconnecting_each_strings filter_concat_leave
      store_ok_rooms_distinct)

text \<open>For a connection all of whose rooms have string keys the handler does what the
  data model expects: for a room \<open>k\<close> that contains \<open>":"\<close> and not \<open>"count"\<close> and has
  \<open>n > 1\<close> members it makes exactly one emission, with count \<open>n - 1\<close>, the size of the
  room once the connection has left; an emission for \<open>k\<close> is made exactly when \<open>k\<close>
  passes the test and has more than one member.\<close>

lemma leave_broadcast_string_keys:
  assumes "store_ok ns" and "all_string_keys (socket_rooms ns s)"
    and "RStr k \<in> set (socket_rooms ns s)" and "k \<noteq> s"
    and "str_includes k '':''" and "\<not> str_includes k ''count''"
  shows "snd (disconnecting_handler ns s) = None
     \<and> (1 < room_size ns (RStr k) \<longrightarrow>
          filter (\<lambda>e. e_room e = RStr (k @ '':count'')) (fst (disconnecting_handler ns s)) =
            [\<lparr>e_room = RStr (k @ '':count''), e_event = ''dataUpdate'',
              e_payload = [(''type'', JStr ''count''), (''topic'', JStr k),
                           (''count'', JNum (int (room_size ns (RStr k) - 1)))],
              e_to = members ns (RStr (k @ '':count''))\<rparr>]
          \<and> room_size (leave_all ns s) (RStr k) = room_size ns (RStr k) - 1)
     \<and> (room_size ns (RStr k) \<le> 1 \<longrightarrow>
          filter (\<lambda>e. e_room e = RStr (k @ '':count'')) (fst (disconnecting_handler ns s)) = [])"
  using assms disconnecting_filter [OF assms(1,2), of k] room_size_leave_all [OF assms(1,3)]
    disconnecting_no_throw [OF assms(2)]
  by (simp add: leave_emits_def)

lemma leave_eligibility_string_keys:
  assumes "store_ok ns" and "all_string_keys (socket_rooms ns s)"
    and "RStr k \<in> set (socket_rooms ns s)" and "k \<noteq> s"
  shows "(filter (\<lambda>e. e_room e = RStr (k @ '':count'')) (fst (disconnecting_handler ns s)) \<noteq> [])
         \<longleftrightarrow> ((\<exists>p q. k = p @ '':'' @ q) \<and> \<not> (\<exists>p q. k = p @ ''count'' @ q) \<and> 1 < room_size ns (RStr k))"
  using assms disconnecting_filter [OF assms(1,2), of k]
  by (simp add: leave_emits_def str_includes_iff)

text \<open>Whatever the keys of the connection's rooms are, every emission the handler makes
  is for a room of the connection whose key contains \<open>":"\<close>, does not contain
  \<open>"count"\<close> and which has more than one member.\<close>

lemma leave_room_emission:
  assumes "leave_room ns s r = Inr es" and "e \<in> set es"
  shows "\<exists>k. r = RStr k \<and> e_room e = RStr (k @ '':count'') \<and> str_includes k '':''
             \<and> \<not> str_includes k ''count'' \<and> 1 < room_size ns r"
proof (cases r)
  case (RStr k)
  with assms show ?thesis
    by (auto simp: leave_room_str leave_emits_def split: if_splits)
next
  case (RBool b)
  with assms show ?thesis
    by (auto simp: leave_room_def split: if_splits)
next
  case RNull
  with assms show ?thesis
    by (auto simp: leave_room_def split: if_splits)
qed

lemma disconnecting_each_emission:
  "e \<in> set (fst (disconnecting_each ns s rs)) \<Longrightarrow>
   \<exists>k. RStr k \<in> set rs \<and> e_room e = RStr (k @ '':count'') \<and> str_includes k '':''
       \<and> \<not> str_includes k ''count'' \<and> 1 < room_size ns (RStr k)"
proof (induction rs)
  case Nil
  then show ?case by simp
next
  case (Cons r rs)
  show ?case
  proof (cases "leave_room ns s r")
    case (Inl err)
    with Cons.prems show ?thesis by simp
  next
    case (Inr es)
    with Cons.prems have "e \<in> set es \<or> e \<in> set (fst (disconnecting_each ns s rs))"
      by (auto simp: case_prod_unfold Let_def)
    then show ?thesis
    proof
      assume "e \<in> set es"
      from leave_room_emission [OF Inr this] show ?thesis by auto
    next
      assume "e \<in> set (fst (disconnecting_each ns s rs))"
      from Cons.IH [OF this] show ?thesis by auto
    qed
  qed
qed

lemma leave_room_non_string:
  "leave_room ns s (RBool b) = Inl TypeError" "leave_room ns s RNull = Inl TypeError"
  by (simp_all add: leave_room_def)

lemma store_ok_ns_mixed: "store_ok ns_mixed"
  unfolding ns_mixed_def Let_def
  by (intro store_ok_subscribe_handler store_ok_on_connection store_ok_subscribeCount_handler
      store_ok_empty)

lemma ns_mixed_rooms_s1:
  "socket_rooms ns_mixed ''s1'' = [RStr ''s1'', RStr ''news:x'', RBool True, RStr ''other:y'']"
  by (simp add: ns_mixed_def subscribeCount_handler_def state_eval)

lemma ns_mixed_members:
  "members ns_mixed (RStr ''news:x'') = [''s1'', ''s2'']"
  "members ns_mixed (RStr ''other:y'') = [''s1'', ''s2'']"
  "members ns_mixed (RStr ''news:x:count'') = [''c'']"
  "members ns_mixed (RStr ''other:y:count'') = [''c'']"
  by (simp_all add: ns_mixed_def subscribeCount_handler_def state_eval)

lemma ns_mixed_disconnecting:
  "disconnecting_handler ns_mixed ''s1'' =
     ([\<lparr>e_room = RStr ''news:x:count'', e_event = ''dataUpdate'',
        e_payload = [(''type'', JStr ''count''), (''topic'', JStr ''news:x''), (''count'', JNum 1)],
        e_to = [''c'']\<rparr>], Some TypeError)"
  by (simp add: disconnecting_handler_def ns_mixed_rooms_s1 leave_room_str leave_emits_def
      leave_room_non_string room_size_def ns_mixed_members)

text \<open>
  C3. The claim fails on the code for a connection that has a room whose key is not a
  string. \<open>s1\<close> has sent \<open>subscribe(["news:x", true, "other:y"])\<close>, \<open>s2\<close> is subscribed
  to both topics and \<open>c\<close> has asked for their counts; the store is built by the
  handlers and satisfies the invariant (\<open>store_ok_ns_mixed\<close>). When \<open>s1\<close> disconnects,
  the handler broadcasts count 1 for \<open>"news:x"\<close>, then raises a \<open>TypeError\<close> at the key
  \<open>true\<close>, on which it calls \<open>includes\<close>, and the loop ends: \<open>"other:y"\<close>, which has
  \<open>M = 2\<close> members, gets no broadcast of count \<open>M - 1\<close>.
\<close>

theorem C3_leave_loop_ends_at_non_string_key:
  "socket_rooms ns_mixed ''s1'' = [RStr ''s1'', RStr ''news:x'', RBool True, RStr ''other:y'']
   \<and> members ns_mixed (RStr ''other:y'') = [''s1'', ''s2'']
   \<and> members ns_mixed (RStr ''other:y:count'') = [''c'']
   \<and> disconnecting_handler ns_mixed ''s1'' =
       ([\<lparr>e_room = RStr ''news:x:count'', e_event = ''dataUpdate'',
          e_payload = [(''type'', JStr ''count''), (''topic'', JStr ''news:x''), (''count'', JNum 1)],
          e_to = [''c'']\<rparr>], Some TypeError)"
  by (simp add: ns_mixed_rooms_s1 ns_mixed_members ns_mixed_disconnecting)


text \<open>
  C1. The on-leave path has no test of the count room. Two connections are subscribed to
  \<open>"news:x"\<close> and nobody is in \<open>"news:x:count"\<close>; when the first disconnects, the handler
  emits \<open>{type: "count", topic: "news:x", count: 1}\<close> to the empty count room. In the same
  store the on-join path, which has the test, emits nothing.
\<close>

theorem C1_leave_emits_to_empty_count_room:
  "members ns_pair (RStr ''news:x:count'') = []
   \<and> disconnecting_handler ns_pair ''s1'' =
       ([\<lparr>e_room = RStr ''news:x:count'', e_event = ''dataUpdate'',
          e_payload = [(''type'', JStr ''count''), (''topic'', JStr ''news:x''), (''count'', JNum 1)],
          e_to = []\<rparr>], None)
   \<and> snd (subscribe_topic ns_pair ''s3'' (RStr ''news:x'')) = []"
  by (simp add: ns_pair_rooms_s1 ns_pair_members ns_pair_count disconnecting_handler_def
      leave_room_str leave_emits_def subscribe_topic_eq room_size_def count_key_def)

subsection \<open>The store of the notification service\<close>

lemma heap_read_last: "heap_read (h @ [ob]) (length h) = ob"
  by (simp add: heap_read_def)

lemma heap_read_append: "a < length h \<Longrightarrow> heap_read (h @ xs) a = heap_read h a"
  by (simp add: heap_read_def nth_append)

lemma heap_write_last: "heap_write (h @ [ob]) (length h) k v = h @ [set_prop ob k v]"
  by (simp add: heap_write_def heap_read_last)

lemma map_of_set_prop: "map_of (set_prop ob k v) = (map_of ob)(k \<mapsto> v)"
  by (simp add: set_prop_def update_conv')

lemma get_prop_set_prop: "get_prop (set_prop ob k v) k' = (if k' = k then v else get_prop ob k')"
  by (simp add: get_prop_def map_of_set_prop)

lemma prepareNotificationData_eq:
  "prepareNotificationData now h d =
     (length h,
      h @ [(let nd0 = heap_read h d;
                nd1 = (if \<not> truthy (get_prop nd0 ''type'')
                       then set_prop nd0 ''type'' (JStr ''httpRequest'') else nd0);
                nd2 = (if \<not> truthy (get_prop nd1 ''timestamp'')
                       then set_prop nd1 ''timestamp'' (JNum now) else nd1)
            in nd2)])"
  by (simp add: prepareNotificationData_def heap_alloc_def heap_read_last heap_write_last Let_def)

lemma effective_payload_eq:
  "effective_payload now ob =
     (let nd1 = (if \<not> truthy (get_prop ob ''type'')
                 then set_prop ob ''type'' (JStr ''httpRequest'') else ob);
          nd2 = (if \<not> truthy (get_prop nd1 ''timestamp'')
                 then set_prop nd1 ''timestamp'' (JNum now) else nd1)
      in nd2)"
proof -
  have r: "heap_read [ob] 0 = ob" by (simp add: heap_read_def)
  have l: "heap_read ([ob] @ [x]) (length [ob]) = x" for x by (rule heap_read_last)
  show ?thesis
    unfolding effective_payload_def prepareNotificationData_eq r
    using l by (simp add: Let_def)
qed

lemma prepareNotificationData_payload:
  "prepareNotificationData now h d = (length h, h @ [effective_payload now (heap_read h d)])"
  by (simp add: prepareNotificationData_eq effective_payload_eq)

lemma map_of_effective_payload:
  "map_of (effective_payload now d) k =
     (if k = ''type'' \<and> \<not> truthy (get_prop d ''type'') then Some (JStr ''httpRequest'')
      else if k = ''timestamp'' \<and> \<not> truthy (get_prop d ''timestamp'') then Some (JNum now)
      else map_of d k)"
  by (simp add: effective_payload_eq Let_def get_prop_set_prop map_of_set_prop)

lemma sendToUsers_emits:
  "snd (sendToUsers ns us ev d h) =
     (if reserved_event ev then []
      else map (\<lambda>u. (d, ns_emit ns u ev (heap_read h d))) us)"
  by (induction us) (simp_all add: sendToUsers_def try_emit_def)

lemma sendToDevices_emits:
  "snd (sendToDevices ns us ev d h) =
     (if reserved_event ev then []
      else map (\<lambda>u. (d, ns_emit ns u ev (heap_read h d))) us)"
  by (induction us) (simp_all add: sendToDevices_def try_emit_def)

lemma sendToTopics_eq:
  "d < length h \<Longrightarrow>
   sendToTopics ns ts ev d h =
     (map (\<lambda>t. (t, \<not> reserved_event ev)) ts,
      (if reserved_event ev then []
       else map (\<lambda>(a, t). (a, ns_emit ns t ev (set_prop (heap_read h d) ''topic'' (room_val t))))
              (enumerate (length h) ts)),
      h @ map (\<lambda>t. set_prop (heap_read h d) ''topic'' (room_val t)) ts)"
proof (induction ts arbitrary: h)
  case Nil
  then show ?case by simp
next
  case (Cons t ts)
  let ?x = "set_prop (heap_read h d) ''topic'' (room_val t)"
  have d': "d < length (h @ [?x])" using Cons.prems by simp
  have r: "heap_read (h @ [?x]) d = heap_read h d"
    using Cons.prems by (rule heap_read_append)
  show ?case
    by (simp add: heap_alloc_def Cons.IH [OF d'] r try_emit_def heap_read_last)
qed

lemma elems_not_nonempty: "\<not> nonempty_array a \<Longrightarrow> elems a = []"
  by (cases a) auto

lemma sendNotification_store_valid:
  assumes "validateTargets (users req) (devices req) (eventTopics req) = None"
  shows "sendNotification_store i now req =
     (let ev = (case eventName req of None \<Rightarrow> ''dataUpdate'' | Some e \<Rightarrow> e);
          d0 = (case data req of None \<Rightarrow> [] | Some d \<Rightarrow> d);
          P = effective_payload now d0;
          nm = ''/'' @ appId req;
          ns = fst (io_of i nm)
      in (Inr \<lparr>success = True,
               result_message = ''Notification sent successfully'',
               userTargets = target_count (users req),
               deviceTargets = target_count (devices req),
               topicTargets = target_count (eventTopics req)\<rparr>,
          snd (io_of i nm),
          (if reserved_event ev then []
           else map (\<lambda>u. (nm, 1, \<lparr>e_room = u, e_event = ev, e_payload = P, e_to = members ns u\<rparr>))
                  (elems (users req) @ elems (devices req))
                @ map (\<lambda>(a, t). (nm, a, \<lparr>e_room = t, e_event = ev,
                                           e_payload = set_prop P ''topic'' (room_val t),
                                           e_to = members ns t\<rparr>))
                    (enumerate 2 (elems (eventTopics req)))),
          [d0, P] @ map (\<lambda>t. set_prop P ''topic'' (room_val t)) (elems (eventTopics req))))"
proof -
  let ?d0 = "case data req of None \<Rightarrow> [] | Some d \<Rightarrow> d"
  let ?P = "effective_payload now ?d0"
  have p: "prepareNotificationData now [?d0] 0 = (1, [?d0, ?P])"
    by (simp add: prepareNotificationData_payload heap_read_def)
  have r1: "heap_read [?d0, ?P] (Suc 0) = ?P" by (simp add: heap_read_def)
  have t: "sendToTopics ns ts ev (Suc 0) [?d0, ?P] =
     (map (\<lambda>t. (t, \<not> reserved_event ev)) ts,
      (if reserved_event ev then []
       else map (\<lambda>(a, t). (a, ns_emit ns t ev (set_prop ?P ''topic'' (room_val t))))
              (enumerate 2 ts)),
      [?d0, ?P] @ map (\<lambda>t. set_prop ?P ''topic'' (room_val t)) ts)" for ns ts ev
    using sendToTopics_eq [of "Suc 0" "[?d0, ?P]" ns ts ev] by (simp add: r1 numeral_2_eq_2)
  show ?thesis
    using assms
    by (simp add: sendNotification_store_def heap_alloc_def p Let_def case_prod_unfold
        sendToUsers_emits sendToDevices_emits t r1 ns_emit_def elems_not_nonempty comp_def)
qed

lemma sendNotification_store_invalid:
  "validateTargets (users req) (devices req) (eventTopics req) = Some err \<Longrightarrow>
   sendNotification_store i now req =
     (Inl err, i, [], [case data req of None \<Rightarrow> [] | Some d \<Rightarrow> d])"
  by (simp add: sendNotification_store_def heap_alloc_def)

lemma sendNotification_emits:
  assumes "validateTargets (users req) (devices req) (eventTopics req) = None"
  shows "snd (snd (sendNotification i now req)) =
     (if reserved_event (case eventName req of None \<Rightarrow> ''dataUpdate'' | Some e \<Rightarrow> e) then []
      else
       map (\<lambda>u. (''/'' @ appId req,
                \<lparr>e_room = u,
                  e_event = (case eventName req of None \<Rightarrow> ''dataUpdate'' | Some e \<Rightarrow> e),
                  e_payload = effective_payload now (case data req of None \<Rightarrow> [] | Some d \<Rightarrow> d),
                  e_to = members (fst (io_of i (''/'' @ appId req))) u\<rparr>))
         (elems (users req) @ elems (devices req))
       @ map (\<lambda>t. (''/'' @ appId req,
                \<lparr>e_room = t,
                  e_event = (case eventName req of None \<Rightarrow> ''dataUpdate'' | Some e \<Rightarrow> e),
                  e_payload = set_prop (effective_payload now (case data req of None \<Rightarrow> [] | Some d \<Rightarrow> d))
                     ''topic'' (room_val t),
                  e_to = members (fst (io_of i (''/'' @ appId req))) t\<rparr>))
         (elems (eventTopics req)))"
proof -
  have e: "map (\<lambda>x. G (snd x)) (enumerate n ts) = map G ts"
    for G :: "room \<Rightarrow> string \<times> emission" and ts n
    by (induction ts arbitrary: n) simp_all
  show ?thesis
    using e [of "\<lambda>t. (''/'' @ appId req,
                \<lparr>e_room = t,
                  e_event = (case eventName req of None \<Rightarrow> ''dataUpdate'' | Some e \<Rightarrow> e),
                  e_payload = set_prop (effective_payload now (case data req of None \<Rightarrow> [] | Some d \<Rightarrow> d))
                     ''topic'' (room_val t),
                  e_to = members (fst (io_of i (''/'' @ appId req))) t\<rparr>)" 2 "elems (eventTopics req)"]
    by (simp add: sendNotification_def sendNotification_store_valid [OF assms] Let_def comp_def
        case_prod_unfold)
qed

lemma sendNotification_invalid:
  "validateTargets (users req) (devices req) (eventTopics req) = Some err \<Longrightarrow>
   sendNotification i now req = (Inl err, i, [])"
  by (simp add: sendNotification_def sendNotification_store_invalid)

lemma sendNotification_result:
  assumes "validateTargets (users req) (devices req) (eventTopics req) = None"
  shows "fst (sendNotification i now req) =
     Inr \<lparr>success = True,
          result_message = ''Notification sent successfully'',
          userTargets = target_count (users req),
          deviceTargets = target_count (devices req),
          topicTargets = target_count (eventTopics req)\<rparr>"
  by (simp add: sendNotification_def sendNotification_store_valid [OF assms] Let_def)

subsection \<open>Validation of the targets\<close>

lemma nonempty_array_iff: "nonempty_array a \<longleftrightarrow> (\<exists>xs. a = ArgArr xs \<and> xs \<noteq> [])"
  by (cases a) auto

text \<open>
  C5. When none of \<open>users\<close>, \<open>devices\<close>, \<open>eventTopics\<close> is a non-empty array,
  \<open>sendNotification\<close> throws the error with the message
  \<open>At least one of 'users', 'devices', or 'eventTopics' must be provided\<close> and status
  code 400, which the controller answers with status 400; no emission is made and the
  registry of namespaces is unchanged.
\<close>

theorem C5_no_target_error_without_emit:
  assumes "\<not> (\<exists>xs. users req = ArgArr xs \<and> xs \<noteq> [])"
    and "\<not> (\<exists>xs. devices req = ArgArr xs \<and> xs \<noteq> [])"
    and "\<not> (\<exists>xs. eventTopics req = ArgArr xs \<and> xs \<noteq> [])"
  shows "sendNotification i now req =
           (Inl \<lparr>message = ''At least one of 'users', 'devices', or 'eventTopics' must be provided'',
                  statusCode = Some 400\<rparr>, i, [])
         \<and> controller_sendNotification i now req =
           (\<lparr>status = 400,
             body = Inl ''At least one of 'users', 'devices', or 'eventTopics' must be provided''\<rparr>, i, [])"
proof -
  have v: "validateTargets (users req) (devices req) (eventTopics req) =
      Some \<lparr>message = ''At least one of 'users', 'devices', or 'eventTopics' must be provided'',
            statusCode = Some 400\<rparr>"
    using assms by (simp add: validateTargets_def nonempty_array_iff)
  have s: "sendNotification i now req =
           (Inl \<lparr>message = ''At least one of 'users', 'devices', or 'eventTopics' must be provided'',
                  statusCode = Some 400\<rparr>, i, [])"
    by (simp add: sendNotification_invalid [OF v])
  show ?thesis
    by (simp add: s controller_sendNotification_def)
qed

theorem C5_no_target_error_without_emit_witness:
  "\<not> (\<exists>xs. users \<lparr>appId = ''x'', users = ArgUndefined, devices = ArgArr [], eventTopics = ArgStr ''t'',
                     eventName = None, data = None\<rparr> = ArgArr xs \<and> xs \<noteq> [])
   \<and> \<not> (\<exists>xs. devices \<lparr>appId = ''x'', users = ArgUndefined, devices = ArgArr [], eventTopics = ArgStr ''t'',
                     eventName = None, data = None\<rparr> = ArgArr xs \<and> xs \<noteq> [])
   \<and> \<not> (\<exists>xs. eventTopics \<lparr>appId = ''x'', users = ArgUndefined, devices = ArgArr [], eventTopics = ArgStr ''t'',
                     eventName = None, data = None\<rparr> = ArgArr xs \<and> xs \<noteq> [])
   \<and> sendNotification Map.empty 1700000000000
        \<lparr>appId = ''x'', users = ArgUndefined, devices = ArgArr [], eventTopics = ArgStr ''t'',
         eventName = None, data = None\<rparr> =
       (Inl \<lparr>message = ''At least one of 'users', 'devices', or 'eventTopics' must be provided'',
              statusCode = Some 400\<rparr>, Map.empty, [])"
proof -
  let ?r = "\<lparr>appId = ''x'', users = ArgUndefined, devices = ArgArr [], eventTopics = ArgStr ''t'',
             eventName = None, data = None\<rparr>"
  have h1: "\<not> (\<exists>xs. users ?r = ArgArr xs \<and> xs \<noteq> [])" by simp
  have h2: "\<not> (\<exists>xs. devices ?r = ArgArr xs \<and> xs \<noteq> [])" by simp
  have h3: "\<not> (\<exists>xs. eventTopics ?r = ArgArr xs \<and> xs \<noteq> [])" by simp
  show ?thesis
    using C5_no_target_error_without_emit [OF h1 h2 h3, of Map.empty 1700000000000] h1 h2 h3
    by simp
qed

subsection \<open>The notification service\<close>

lemma io_ab_a_members:
  "members (fst (io_of io_ab ''/a'')) (RStr ''news:x'') = [''sa'']"
  "members (fst (io_of io_ab ''/a'')) (RStr ''u1'') = [''sa'']"
  "members (fst (io_of io_ab ''/a'')) (RStr ''u2'') = []"
  by (simp_all add: io_ab_def io_of_def state_eval)

lemma io_ab_b_members:
  "members (fst (io_of io_ab ''/b'')) (RStr ''news:x'') = [''sb'']"
  "members (fst (io_of io_ab ''/b'')) (RStr ''u1'') = [''sb'']"
  by (simp_all add: io_ab_def io_of_def state_eval)

lemma io_ab_a_news_y: "members (fst (io_of io_ab ''/a'')) (RStr ''news:y'') = []"
  by (simp add: io_ab_def io_of_def state_eval)

lemmas payload_eval = effective_payload_eq get_prop_def set_prop_def Let_def

text \<open>
  C4. Every emission made by \<open>sendNotification\<close> for a request with application
  identifier \<open>A\<close> is made on the namespace \<open>"/" + A\<close>, and its recipients are the members
  of the addressed room in that namespace. So no connection of the namespace of a
  different application \<open>B\<close> receives it, also when it is subscribed to a topic of the
  same name; and the emissions do not depend on the content of any other namespace.
\<close>

theorem C4_namespace_isolation:
  "(\<forall>e \<in> set (snd (snd (sendNotification i now req))).
       fst e = ''/'' @ appId req
       \<and> e_to (snd e) = members (fst (io_of i (''/'' @ appId req))) (e_room (snd e)))
   \<and> (b \<noteq> appId req \<longrightarrow>
        (\<forall>e \<in> set (snd (snd (sendNotification i now req))). \<forall>s. \<not> receives (''/'' @ b) s e))
   \<and> (\<forall>i'. i' (''/'' @ appId req) = i (''/'' @ appId req) \<longrightarrow>
          snd (snd (sendNotification i' now req)) = snd (snd (sendNotification i now req)))"
proof -
  have A: "\<forall>e \<in> set (snd (snd (sendNotification i now req))).
       fst e = ''/'' @ appId req
       \<and> e_to (snd e) = members (fst (io_of i (''/'' @ appId req))) (e_room (snd e))"
  proof (cases "validateTargets (users req) (devices req) (eventTopics req)")
    case None
    then show ?thesis by (auto simp: sendNotification_emits)
  next
    case (Some err)
    then show ?thesis by (simp add: sendNotification_invalid)
  qed
  have B: "b \<noteq> appId req \<longrightarrow>
        (\<forall>e \<in> set (snd (snd (sendNotification i now req))). \<forall>s. \<not> receives (''/'' @ b) s e)"
    using A by (auto simp: receives_def)
  have C: "\<forall>i'. i' (''/'' @ appId req) = i (''/'' @ appId req) \<longrightarrow>
          snd (snd (sendNotification i' now req)) = snd (snd (sendNotification i now req))"
  proof (intro allI impI)
    fix i' :: io
    assume e: "i' (''/'' @ appId req) = i (''/'' @ appId req)"
    then have f: "fst (io_of i' (''/'' @ appId req)) = fst (io_of i (''/'' @ appId req))"
      by (simp add: io_of_def split: option.splits)
    show "snd (snd (sendNotification i' now req)) = snd (snd (sendNotification i now req))"
    proof (cases "validateTargets (users req) (devices req) (eventTopics req)")
      case None
      then show ?thesis using f by (simp add: sendNotification_emits)
    next
      case (Some err)
      then show ?thesis by (simp add: sendNotification_invalid)
    qed
  qed
  show ?thesis using A B C by blast
qed

theorem C4_namespace_isolation_witness:
  "members (fst (io_of io_ab ''/a'')) (RStr ''news:x'') = [''sa'']
   \<and> members (fst (io_of io_ab ''/b'')) (RStr ''news:x'') = [''sb'']
   \<and> ''b'' \<noteq> ''a''
   \<and> snd (snd (sendNotification io_ab 1700000000000
        \<lparr>appId = ''a'', users = ArgUndefined, devices = ArgUndefined,
         eventTopics = ArgArr [RStr ''news:x''], eventName = None, data = None\<rparr>)) =
       [(''/a'', \<lparr>e_room = RStr ''news:x'', e_event = ''dataUpdate'',
                   e_payload = [(''type'', JStr ''httpRequest''), (''timestamp'', JNum 1700000000000),
                                (''topic'', JStr ''news:x'')],
                   e_to = [''sa'']\<rparr>)]
   \<and> filter (receives ''/b'' ''sb'')
        (snd (snd (sendNotification io_ab 1700000000000
          \<lparr>appId = ''a'', users = ArgUndefined, devices = ArgUndefined,
           eventTopics = ArgArr [RStr ''news:x''], eventName = None, data = None\<rparr>))) = []"
proof -
  let ?req = "\<lparr>appId = ''a'', users = ArgUndefined, devices = ArgUndefined,
         eventTopics = ArgArr [RStr ''news:x''], eventName = None, data = None\<rparr>"
  have v: "validateTargets (users ?req) (devices ?req) (eventTopics ?req) = None"
    by (simp add: validateTargets_def)
  have p: "effective_payload 1700000000000 [] =
      [(''type'', JStr ''httpRequest''), (''timestamp'', JNum 1700000000000)]"
    by (simp add: payload_eval)
  have r: "\<not> reserved_event ''dataUpdate''"
    by (simp add: reserved_event_def)
  have e: "snd (snd (sendNotification io_ab 1700000000000 ?req)) =
       [(''/a'', \<lparr>e_room = RStr ''news:x'', e_event = ''dataUpdate'',
                   e_payload = [(''type'', JStr ''httpRequest''), (''timestamp'', JNum 1700000000000),
                                (''topic'', JStr ''news:x'')],
                   e_to = [''sa'']\<rparr>)]"
    by (simp add: sendNotification_emits [OF v] p r io_ab_a_members set_prop_def)
  have n: "''b'' \<noteq> appId ?req" by simp
  have "\<forall>e \<in> set (snd (snd (sendNotification io_ab 1700000000000 ?req))). \<forall>s. \<not> receives (''/'' @ ''b'') s e"
    using C4_namespace_isolation [of io_ab 1700000000000 ?req "''b''"] n by blast
  then have "\<forall>e \<in> set (snd (snd (sendNotification io_ab 1700000000000 ?req))). \<not> receives ''/b'' ''sb'' e"
    by simp
  then have "filter (receives ''/b'' ''sb'') (snd (snd (sendNotification io_ab 1700000000000 ?req))) = []"
    by (simp add: filter_empty_conv)
  then show ?thesis
    using e by (simp add: io_ab_a_members io_ab_b_members)
qed

text \<open>
  C6, as stated, fails in its last part: the payload for users and devices is the
  effective payload, and that has a \<open>topic\<close> property when the caller's data has one.
  With data \<open>{topic: "zzz"}\<close> the user \<open>u1\<close> receives a payload with topic \<open>"zzz"\<close>,
  while the subscribers of \<open>"news:x"\<close> receive one with topic \<open>"news:x"\<close>.
\<close>

theorem C6_counterexample:
  "snd (snd (sendNotification io_ab 1700000000000
        \<lparr>appId = ''a'', users = ArgArr [RStr ''u1''], devices = ArgUndefined,
         eventTopics = ArgArr [RStr ''news:x''], eventName = None,
         data = Some [(''topic'', JStr ''zzz'')]\<rparr>)) =
       [(''/a'', \<lparr>e_room = RStr ''u1'', e_event = ''dataUpdate'',
                   e_payload = [(''topic'', JStr ''zzz''), (''type'', JStr ''httpRequest''),
                                (''timestamp'', JNum 1700000000000)],
                   e_to = [''sa'']\<rparr>),
        (''/a'', \<lparr>e_room = RStr ''news:x'', e_event = ''dataUpdate'',
                   e_payload = [(''topic'', JStr ''news:x''), (''type'', JStr ''httpRequest''),
                                (''timestamp'', JNum 1700000000000)],
                   e_to = [''sa'']\<rparr>)]
   \<and> has_prop [(''topic'', JStr ''zzz''), (''type'', JStr ''httpRequest''),
               (''timestamp'', JNum 1700000000000)] ''topic''"
proof -
  let ?req = "\<lparr>appId = ''a'', users = ArgArr [RStr ''u1''], devices = ArgUndefined,
         eventTopics = ArgArr [RStr ''news:x''], eventName = None,
         data = Some [(''topic'', JStr ''zzz'')]\<rparr>"
  have v: "validateTargets (users ?req) (devices ?req) (eventTopics ?req) = None"
    by (simp add: validateTargets_def)
  have p: "effective_payload 1700000000000 [(''topic'', JStr ''zzz'')] =
      [(''topic'', JStr ''zzz''), (''type'', JStr ''httpRequest''), (''timestamp'', JNum 1700000000000)]"
    by (simp add: payload_eval)
  have r: "\<not> reserved_event ''dataUpdate''"
    by (simp add: reserved_event_def)
  show ?thesis
    by (simp add: sendNotification_emits [OF v] p r io_ab_a_members set_prop_def has_prop_def)
qed

text \<open>
  C6, amended. For every request that passes the validation of the targets, the store
  after \<open>sendNotification\<close> holds the caller's data object, unchanged, at address 0; the
  effective payload at address 1; and after them one new object for each topic of
  \<open>eventTopics\<close>, in order, whose properties are those of the effective payload with
  \<open>topic\<close> set to that topic key. Every emission to a user or a device carries the object
  at address 1, every emission to a topic carries the object created for that topic, and
  what is sent is what the object holds when the service is done: no payload is written
  once it has been sent, so each topic's recipients see their own topic key. The service
  adds no \<open>topic\<close> property to the effective payload: it has one exactly when the
  caller's data has one, with the caller's value.
\<close>

theorem C6_per_topic_copy:
  assumes "validateTargets (users req) (devices req) (eventTopics req) = None"
  shows "(let ev = (case eventName req of None \<Rightarrow> ''dataUpdate'' | Some e \<Rightarrow> e);
              d0 = (case data req of None \<Rightarrow> [] | Some d \<Rightarrow> d);
              P = effective_payload now d0;
              nm = ''/'' @ appId req;
              ns = fst (io_of i nm);
              ts = elems (eventTopics req);
              es = fst (snd (snd (sendNotification_store i now req)));
              h = snd (snd (snd (sendNotification_store i now req)))
          in es = (if reserved_event ev then []
                   else map (\<lambda>u. (nm, 1, \<lparr>e_room = u, e_event = ev, e_payload = P,
                                           e_to = members ns u\<rparr>))
                          (elems (users req) @ elems (devices req))
                        @ map (\<lambda>(a, t). (nm, a, \<lparr>e_room = t, e_event = ev,
                                                   e_payload = set_prop P ''topic'' (room_val t),
                                                   e_to = members ns t\<rparr>))
                            (enumerate 2 ts))
             \<and> h = [d0, P] @ map (\<lambda>t. set_prop P ''topic'' (room_val t)) ts
             \<and> (\<forall>x \<in> set es. heap_read h (fst (snd x)) = e_payload (snd (snd x)))
             \<and> (\<forall>t. map_of (set_prop P ''topic'' (room_val t)) = (map_of P)(''topic'' \<mapsto> room_val t))
             \<and> map_of P ''topic'' = map_of d0 ''topic'')"
proof -
  let ?ev = "case eventName req of None \<Rightarrow> ''dataUpdate'' | Some e \<Rightarrow> e"
  let ?d0 = "case data req of None \<Rightarrow> [] | Some d \<Rightarrow> d"
  let ?P = "effective_payload now ?d0"
  let ?ts = "elems (eventTopics req)"
  let ?h = "[?d0, ?P] @ map (\<lambda>t. set_prop ?P ''topic'' (room_val t)) ?ts"
  have h1: "heap_read ?h 1 = ?P"
    by (simp add: heap_read_def)
  have ht: "heap_read ?h a = set_prop ?P ''topic'' (room_val t)"
    if "(a, t) \<in> set (enumerate 2 ?ts)" for a t
  proof -
    from that have a: "2 \<le> a" "a < length ?ts + 2" "?ts ! (a - 2) = t"
      by (auto simp: in_set_enumerate_eq)
    then have "?h ! a = map (\<lambda>t. set_prop ?P ''topic'' (room_val t)) ?ts ! (a - 2)"
      by (simp add: nth_append nth_Cons' numeral_2_eq_2)
    with a show ?thesis by (simp add: heap_read_def)
  qed
  show ?thesis
    unfolding Let_def sendNotification_store_valid [OF assms]
    using h1 ht
    by (auto simp: map_of_set_prop map_of_effective_payload)
qed

theorem C6_per_topic_copy_witness:
  "validateTargets (ArgArr [RStr ''u1'']) ArgUndefined (ArgArr [RStr ''news:x'', RStr ''news:y'']) = None
   \<and> snd (snd (sendNotification_store io_ab 1700000000000
        \<lparr>appId = ''a'', users = ArgArr [RStr ''u1''], devices = ArgUndefined,
         eventTopics = ArgArr [RStr ''news:x'', RStr ''news:y''], eventName = Some ''orderPaid'',
         data = Some [(''a'', JNum 1)]\<rparr>)) =
       ([(''/a'', 1, \<lparr>e_room = RStr ''u1'', e_event = ''orderPaid'',
                   e_payload = [(''a'', JNum 1), (''type'', JStr ''httpRequest''),
                                (''timestamp'', JNum 1700000000000)],
                   e_to = [''sa'']\<rparr>),
         (''/a'', 2, \<lparr>e_room = RStr ''news:x'', e_event = ''orderPaid'',
                   e_payload = [(''a'', JNum 1), (''type'', JStr ''httpRequest''),
                                (''timestamp'', JNum 1700000000000), (''topic'', JStr ''news:x'')],
                   e_to = [''sa'']\<rparr>),
         (''/a'', 3, \<lparr>e_room = RStr ''news:y'', e_event = ''orderPaid'',
                   e_payload = [(''a'', JNum 1), (''type'', JStr ''httpRequest''),
                                (''timestamp'', JNum 1700000000000), (''topic'', JStr ''news:y'')],
                   e_to = []\<rparr>)],
        [[(''a'', JNum 1)],
         [(''a'', JNum 1), (''type'', JStr ''httpRequest''), (''timestamp'', JNum 1700000000000)],
         [(''a'', JNum 1), (''type'', JStr ''httpRequest''), (''timestamp'', JNum 1700000000000),
          (''topic'', JStr ''news:x'')],
         [(''a'', JNum 1), (''type'', JStr ''httpRequest''), (''timestamp'', JNum 1700000000000),
          (''topic'', JStr ''news:y'')]])"
proof -
  let ?req = "\<lparr>appId = ''a'', users = ArgArr [RStr ''u1''], devices = ArgUndefined,
         eventTopics = ArgArr [RStr ''news:x'', RStr ''news:y''], eventName = Some ''orderPaid'',
         data = Some [(''a'', JNum 1)]\<rparr>"
  have v: "validateTargets (users ?req) (devices ?req) (eventTopics ?req) = None"
    by (simp add: validateTargets_def)
  have p: "effective_payload 1700000000000 [(''a'', JNum 1)] =
      [(''a'', JNum 1), (''type'', JStr ''httpRequest''), (''timestamp'', JNum 1700000000000)]"
    by (simp add: payload_eval)
  have r: "\<not> reserved_event ''orderPaid''"
    by (simp add: reserved_event_def)
  have e: "enumerate 2 [RStr ''news:x'', RStr ''news:y''] = [(2, RStr ''news:x''), (3, RStr ''news:y'')]"
    by simp
  have "fst (snd (snd (sendNotification_store io_ab 1700000000000 ?req))) =
       [(''/a'', 1, \<lparr>e_room = RStr ''u1'', e_event = ''orderPaid'',
                   e_payload = [(''a'', JNum 1), (''type'', JStr ''httpRequest''),
                                (''timestamp'', JNum 1700000000000)],
                   e_to = [''sa'']\<rparr>),
         (''/a'', 2, \<lparr>e_room = RStr ''news:x'', e_event = ''orderPaid'',
                   e_payload = [(''a'', JNum 1), (''type'', JStr ''httpRequest''),
                                (''timestamp'', JNum 1700000000000), (''topic'', JStr ''news:x'')],
                   e_to = [''sa'']\<rparr>),
         (''/a'', 3, \<lparr>e_room = RStr ''news:y'', e_event = ''orderPaid'',
                   e_payload = [(''a'', JNum 1), (''type'', JStr ''httpRequest''),
                                (''timestamp'', JNum 1700000000000), (''topic'', JStr ''news:y'')],
                   e_to = []\<rparr>)]
     \<and> snd (snd (snd (sendNotification_store io_ab 1700000000000 ?req))) =
        [[(''a'', JNum 1)],
         [(''a'', JNum 1), (''type'', JStr ''httpRequest''), (''timestamp'', JNum 1700000000000)],
         [(''a'', JNum 1), (''type'', JStr ''httpRequest''), (''timestamp'', JNum 1700000000000),
          (''topic'', JStr ''news:x'')],
         [(''a'', JNum 1), (''type'', JStr ''httpRequest''), (''timestamp'', JNum 1700000000000),
          (''topic'', JStr ''news:y'')]]"
    using C6_per_topic_copy [OF v, of 1700000000000 io_ab]
    by (simp add: Let_def p r e io_ab_a_members io_ab_a_news_y set_prop_def)
  then show ?thesis
    using v by (simp add: prod_eq_iff)
qed

text \<open>
  C7, as stated, fails in two ways. The tests are \<open>!data.type\<close> and \<open>!data.timestamp\<close>,
  so a key that is present with a falsy value is overwritten: with data
  \<open>{type: "", timestamp: 0}\<close> both keys are present, and the payload delivered has type
  \<open>"httpRequest"\<close> and the current time as timestamp. And a delivery can fail: with the
  event name \<open>"connect"\<close>, which the transport reserves, the emit for user \<open>u1\<close> raises
  and is caught, and the connection of \<open>u1\<close> receives nothing.
\<close>

theorem C7_counterexample:
  "has_prop [(''type'', JStr ''''), (''timestamp'', JNum 0)] ''type''
   \<and> has_prop [(''type'', JStr ''''), (''timestamp'', JNum 0)] ''timestamp''
   \<and> sendNotification Map.empty 1700000000000
        \<lparr>appId = ''x'', users = ArgArr [RStr ''u1''], devices = ArgUndefined,
         eventTopics = ArgUndefined, eventName = None,
         data = Some [(''type'', JStr ''''), (''timestamp'', JNum 0)]\<rparr> =
       (Inr \<lparr>success = True, result_message = ''Notification sent successfully'',
              userTargets = JNum 1, deviceTargets = JNum 0, topicTargets = JNum 0\<rparr>,
        [''/x'' \<mapsto> empty_namespace],
        [(''/x'', \<lparr>e_room = RStr ''u1'', e_event = ''dataUpdate'',
                   e_payload = [(''type'', JStr ''httpRequest''), (''timestamp'', JNum 1700000000000)],
                   e_to = []\<rparr>)])
   \<and> members (fst (io_of io_ab ''/a'')) (RStr ''u1'') = [''sa'']
   \<and> snd (snd (sendNotification io_ab 1700000000000
        \<lparr>appId = ''a'', users = ArgArr [RStr ''u1''], devices = ArgUndefined,
         eventTopics = ArgUndefined, eventName = Some ''connect'',
         data = Some [(''a'', JNum 1)]\<rparr>)) = []"
proof -
  let ?r1 = "\<lparr>appId = ''x'', users = ArgArr [RStr ''u1''], devices = ArgUndefined,
         eventTopics = ArgUndefined, eventName = None,
         data = Some [(''type'', JStr ''''), (''timestamp'', JNum 0)]\<rparr>"
  let ?r2 = "\<lparr>appId = ''a'', users = ArgArr [RStr ''u1''], devices = ArgUndefined,
         eventTopics = ArgUndefined, eventName = Some ''connect'',
         data = Some [(''a'', JNum 1)]\<rparr>"
  have v1: "validateTargets (users ?r1) (devices ?r1) (eventTopics ?r1) = None"
    by (simp add: validateTargets_def)
  have v2: "validateTargets (users ?r2) (devices ?r2) (eventTopics ?r2) = None"
    by (simp add: validateTargets_def)
  have p: "effective_payload 1700000000000 [(''type'', JStr ''''), (''timestamp'', JNum 0)] =
      [(''type'', JStr ''httpRequest''), (''timestamp'', JNum 1700000000000)]"
    by (simp add: payload_eval)
  have r: "\<not> reserved_event ''dataUpdate''" "reserved_event ''connect''"
    by (simp_all add: reserved_event_def)
  have a: "sendNotification Map.empty 1700000000000 ?r1 =
       (Inr \<lparr>success = True, result_message = ''Notification sent successfully'',
              userTargets = JNum 1, deviceTargets = JNum 0, topicTargets = JNum 0\<rparr>,
        [''/x'' \<mapsto> empty_namespace],
        [(''/x'', \<lparr>e_room = RStr ''u1'', e_event = ''dataUpdate'',
                   e_payload = [(''type'', JStr ''httpRequest''), (''timestamp'', JNum 1700000000000)],
                   e_to = []\<rparr>)])"
    by (simp add: sendNotification_def sendNotification_store_valid [OF v1] Let_def p r io_of_def
        members_empty)
  have b: "snd (snd (sendNotification io_ab 1700000000000 ?r2)) = []"
    by (simp add: sendNotification_emits [OF v2] r)
  show ?thesis
    using a b by (simp add: has_prop_def io_ab_a_members)
qed

text \<open>
  C7, amended. For every request that passes the validation of the targets, the
  effective payload is the caller's data (the empty object when absent) in which
  \<open>type\<close> is set to \<open>"httpRequest"\<close> exactly when the data's \<open>type\<close> is absent or
  falsy, and \<open>timestamp\<close> is set to the current time exactly when the data's
  \<open>timestamp\<close> is absent or falsy; every other property is the caller's. Unless the event
  name of the request (\<open>dataUpdate\<close> when absent) is one the transport reserves, that
  payload is emitted under that name to the room of every listed user and every listed
  device, in the namespace of the application. For a reserved event name every emit
  raises and is caught, and nothing is emitted. In both cases the request returns
  success.
\<close>

theorem C7_effective_payload_delivered:
  assumes "validateTargets (users req) (devices req) (eventTopics req) = None"
  shows "(let ev = (case eventName req of None \<Rightarrow> ''dataUpdate'' | Some e \<Rightarrow> e);
              d0 = (case data req of None \<Rightarrow> [] | Some d \<Rightarrow> d);
              P = effective_payload now d0;
              nm = ''/'' @ appId req;
              ns = fst (io_of i nm)
          in (\<forall>k. map_of P k =
                (if k = ''type'' \<and> \<not> truthy (get_prop d0 ''type'') then Some (JStr ''httpRequest'')
                 else if k = ''timestamp'' \<and> \<not> truthy (get_prop d0 ''timestamp'') then Some (JNum now)
                 else map_of d0 k))
             \<and> (\<not> reserved_event ev \<longrightarrow>
                  (\<forall>u \<in> set (elems (users req)) \<union> set (elems (devices req)).
                     (nm, \<lparr>e_room = u, e_event = ev, e_payload = P, e_to = members ns u\<rparr>)
                     \<in> set (snd (snd (sendNotification i now req)))))
             \<and> (reserved_event ev \<longrightarrow> snd (snd (sendNotification i now req)) = [])
             \<and> fst (sendNotification i now req) =
                 Inr \<lparr>success = True,
                      result_message = ''Notification sent successfully'',
                      userTargets = target_count (users req),
                      deviceTargets = target_count (devices req),
                      topicTargets = target_count (eventTopics req)\<rparr>)"
  unfolding Let_def sendNotification_emits [OF assms] sendNotification_result [OF assms]
  by (auto simp: map_of_effective_payload)

theorem C7_effective_payload_delivered_witness:
  "validateTargets (ArgArr [RStr ''u1'', RStr ''u2'']) ArgUndefined ArgUndefined = None
   \<and> \<not> reserved_event ''dataUpdate''
   \<and> snd (snd (sendNotification io_ab 1700000000000
        \<lparr>appId = ''a'', users = ArgArr [RStr ''u1'', RStr ''u2''], devices = ArgUndefined,
         eventTopics = ArgUndefined, eventName = None, data = Some [(''a'', JNum 1)]\<rparr>)) =
       [(''/a'', \<lparr>e_room = RStr ''u1'', e_event = ''dataUpdate'',
                   e_payload = [(''a'', JNum 1), (''type'', JStr ''httpRequest''),
                                (''timestamp'', JNum 1700000000000)],
                   e_to = [''sa'']\<rparr>),
        (''/a'', \<lparr>e_room = RStr ''u2'', e_event = ''dataUpdate'',
                   e_payload = [(''a'', JNum 1), (''type'', JStr ''httpRequest''),
                                (''timestamp'', JNum 1700000000000)],
                   e_to = []\<rparr>)]
   \<and> (''/a'', \<lparr>e_room = RStr ''u1'', e_event = ''dataUpdate'',
                   e_payload = [(''a'', JNum 1), (''type'', JStr ''httpRequest''),
                                (''timestamp'', JNum 1700000000000)],
                   e_to = [''sa'']\<rparr>)
        \<in> set (snd (snd (sendNotification io_ab 1700000000000
        \<lparr>appId = ''a'', users = ArgArr [RStr ''u1'', RStr ''u2''], devices = ArgUndefined,
         eventTopics = ArgUndefined, eventName = None, data = Some [(''a'', JNum 1)]\<rparr>)))
   \<and> reserved_event ''disconnect''
   \<and> sendNotification io_ab 1700000000000
        \<lparr>appId = ''a'', users = ArgArr [RStr ''u1'', RStr ''u2''], devices = ArgUndefined,
         eventTopics = ArgUndefined, eventName = Some ''disconnect'', data = Some [(''a'', JNum 1)]\<rparr> =
       (Inr \<lparr>success = True, result_message = ''Notification sent successfully'',
              userTargets = JNum 2, deviceTargets = JNum 0, topicTargets = JNum 0\<rparr>,
        io_ab, [])"
proof -
  let ?req = "\<lparr>appId = ''a'', users = ArgArr [RStr ''u1'', RStr ''u2''], devices = ArgUndefined,
         eventTopics = ArgUndefined, eventName = None, data = Some [(''a'', JNum 1)]\<rparr>"
  let ?req2 = "\<lparr>appId = ''a'', users = ArgArr [RStr ''u1'', RStr ''u2''], devices = ArgUndefined,
         eventTopics = ArgUndefined, eventName = Some ''disconnect'', data = Some [(''a'', JNum 1)]\<rparr>"
  have v: "validateTargets (users ?req) (devices ?req) (eventTopics ?req) = None"
    by (simp add: validateTargets_def)
  have v2: "validateTargets (users ?req2) (devices ?req2) (eventTopics ?req2) = None"
    by (simp add: validateTargets_def)
  have p: "effective_payload 1700000000000 [(''a'', JNum 1)] =
      [(''a'', JNum 1), (''type'', JStr ''httpRequest''), (''timestamp'', JNum 1700000000000)]"
    by (simp add: payload_eval)
  have r: "\<not> reserved_event ''dataUpdate''" "reserved_event ''disconnect''"
    by (simp_all add: reserved_event_def)
  have e: "snd (snd (sendNotification io_ab 1700000000000 ?req)) =
       [(''/a'', \<lparr>e_room = RStr ''u1'', e_event = ''dataUpdate'',
                   e_payload = [(''a'', JNum 1), (''type'', JStr ''httpRequest''),
                                (''timestamp'', JNum 1700000000000)],
                   e_to = [''sa'']\<rparr>),
        (''/a'', \<lparr>e_room = RStr ''u2'', e_event = ''dataUpdate'',
                   e_payload = [(''a'', JNum 1), (''type'', JStr ''httpRequest''),
                                (''timestamp'', JNum 1700000000000)],
                   e_to = []\<rparr>)]"
    by (simp add: sendNotification_emits [OF v] p r io_ab_a_members)
  have m: "(''/a'', \<lparr>e_room = RStr ''u1'', e_event = ''dataUpdate'',
                   e_payload = [(''a'', JNum 1), (''type'', JStr ''httpRequest''),
                                (''timestamp'', JNum 1700000000000)],
                   e_to = [''sa'']\<rparr>)
          \<in> set (snd (snd (sendNotification io_ab 1700000000000 ?req)))"
    using C7_effective_payload_delivered [OF v, of 1700000000000 io_ab]
    by (simp add: Let_def p r io_ab_a_members)
  have i: "snd (io_of io_ab ''/a'') = io_ab"
    by (simp add: io_of_def io_ab_def)
  have f: "fst (snd (sendNotification io_ab 1700000000000 ?req2)) = io_ab"
    using i by (simp add: sendNotification_def sendNotification_store_valid [OF v2] Let_def)
  have "fst (sendNotification io_ab 1700000000000 ?req2) =
          Inr \<lparr>success = True, result_message = ''Notification sent successfully'',
               userTargets = JNum 2, deviceTargets = JNum 0, topicTargets = JNum 0\<rparr>
        \<and> snd (snd (sendNotification io_ab 1700000000000 ?req2)) = []"
    using C7_effective_payload_delivered [OF v2, of 1700000000000 io_ab]
    by (simp add: Let_def r)
  then have s: "sendNotification io_ab 1700000000000 ?req2 =
       (Inr \<lparr>success = True, result_message = ''Notification sent successfully'',
              userTargets = JNum 2, deviceTargets = JNum 0, topicTargets = JNum 0\<rparr>,
        io_ab, [])"
    using f by (simp add: prod_eq_iff)
  show ?thesis
    using v r e m s by simp
qed

end
